theory Spec2Isabelle
  imports Complex_Main "HOL-Library.Word" "HOL-Library.AList"
begin

section \<open>JavaScript strings\<close>

text \<open>
  A JavaScript string is a sequence of UTF-16 code units. String literals of the
  source are ASCII apart from the degree sign (U+00B0), so \<open>ustr\<close> turns an ASCII
  literal into its code units.
\<close>

type_synonym jschar = "16 word"
type_synonym jsstring = "jschar list"

definition ustr :: "string \<Rightarrow> jsstring" where
  "ustr s = map (\<lambda>c. of_nat (of_char c)) s"

definition SPACE :: jschar where
  "SPACE = 0x20"

definition DEGREE :: jschar where
  "DEGREE = 0xB0"

text \<open>\<^verbatim>\<open>string.split(" ")\<close>: the pieces between single spaces; never empty.\<close>

fun split_space :: "jsstring \<Rightarrow> jsstring list" where
  "split_space [] = [[]]"
| "split_space (c # cs) =
     (if c = SPACE then [] # split_space cs
      else (case split_space cs of
              [] \<Rightarrow> [[c]]
            | t # ts \<Rightarrow> (c # t) # ts))"

text \<open>\<^verbatim>\<open>string.replaceAll("\<degree>", "")\<close> for the one-unit pattern.\<close>

definition replaceAll_degree :: "jsstring \<Rightarrow> jsstring" where
  "replaceAll_degree s = filter (\<lambda>c. c \<noteq> DEGREE) s"

text \<open>\<^verbatim>\<open>haystack.includes(needle)\<close>: the needle occurs as a contiguous run.\<close>

fun includes_str :: "jsstring \<Rightarrow> jsstring \<Rightarrow> bool" where
  "includes_str [] needle = (needle = [])"
| "includes_str (c # cs) needle =
     (take (length needle) (c # cs) = needle \<or> includes_str cs needle)"

section \<open>JavaScript numbers\<close>

text \<open>
  A Number is an IEEE 754 binary64 value. \<open>Fin s m\<close> is the finite value of
  magnitude \<open>m\<close> (a non-negative rational that binary64 represents) and sign
  \<open>s\<close> (\<open>True\<close> is negative), so \<open>Fin True 0\<close> is the negative zero;
  \<open>Infty s\<close> is the signed infinity.
\<close>

datatype jsnum = NaN | Infty bool | Fin bool rat

definition pow2 :: "int \<Rightarrow> rat" where
  "pow2 e = (if 0 \<le> e then 2 ^ nat e else 1 / 2 ^ nat (- e))"

definition pow10 :: "int \<Rightarrow> rat" where
  "pow10 e = (if 0 \<le> e then 10 ^ nat e else 1 / 10 ^ nat (- e))"

text \<open>The number of digits of \<open>n\<close> in base \<open>b\<close> (0 for 0).\<close>

function ndigits :: "int \<Rightarrow> int \<Rightarrow> int" where
  "ndigits b n = (if n \<le> 0 \<or> b < 2 then 0 else ndigits b (n div b) + 1)"
  by pat_completeness auto
termination
  by (relation "measure (\<lambda>(b, n). nat n)") (auto simp: pos_imp_zdiv_neg_iff intro!: int_div_less_self)

declare ndigits.simps [simp del]

text \<open>
  \<open>\<lfloor>log\<^sub>b q\<rfloor>\<close> for a positive rational \<open>q\<close>: from the digits of \<open>\<lfloor>q\<rfloor>\<close> when
  \<open>1 \<le> q\<close>, and from those of \<open>\<lceil>1 / q\<rceil> - 1\<close> otherwise.
\<close>

definition ilog :: "int \<Rightarrow> rat \<Rightarrow> int" where
  "ilog b q = (if 1 \<le> q then ndigits b \<lfloor>q\<rfloor> - 1 else - ndigits b (\<lceil>1 / q\<rceil> - 1))"

definition roundHalfEven :: "rat \<Rightarrow> int" where
  "roundHalfEven x =
     (let f = \<lfloor>x\<rfloor>; r = x - of_int f
      in if r < 1 / 2 then f
         else if 1 / 2 < r then f + 1
         else if even f then f else f + 1)"

text \<open>
  Rounding a non-negative real magnitude to binary64 (round to nearest, ties to
  even; 53 significant bits, least exponent \<open>-1022\<close>, subnormals in steps of
  \<open>2\<^sup>-\<^sup>1\<^sup>0\<^sup>7\<^sup>4\<close>, overflow to infinity).
\<close>

definition fl :: "bool \<Rightarrow> rat \<Rightarrow> jsnum" where
  "fl s m =
     (if m = 0 then Fin s 0
      else
        let e = max (ilog 2 m) (- 1022);
            ulp = pow2 (e - 52);
            r = of_int (roundHalfEven (m / ulp)) * ulp
        in if pow2 1024 \<le> r then Infty s else Fin s r)"

text \<open>The \<^verbatim>\<open>/\<close> operator on Numbers.\<close>

fun jsdiv :: "jsnum \<Rightarrow> jsnum \<Rightarrow> jsnum" where
  "jsdiv NaN y = NaN"
| "jsdiv x NaN = NaN"
| "jsdiv (Infty s) (Infty t) = NaN"
| "jsdiv (Infty s) (Fin t m) = Infty (s \<noteq> t)"
| "jsdiv (Fin s m) (Infty t) = Fin (s \<noteq> t) 0"
| "jsdiv (Fin s a) (Fin t b) =
     (if b = 0 then (if a = 0 then NaN else Infty (s \<noteq> t))
      else fl (s \<noteq> t) (a / b))"

text \<open>\<^verbatim>\<open>x === 0\<close> on a Number: both zeros are equal to 0, NaN is not.\<close>

fun strictEqZero :: "jsnum \<Rightarrow> bool" where
  "strictEqZero (Fin s m) = (m = 0)"
| "strictEqZero x = False"

fun abs_num :: "jsnum \<Rightarrow> jsnum" where
  "abs_num NaN = NaN"
| "abs_num (Infty s) = Infty False"
| "abs_num (Fin s m) = Fin False m"

subsection \<open>Number to string\<close>

definition digitChar :: "int \<Rightarrow> jschar" where
  "digitChar d = of_int (48 + d)"

text \<open>The decimal digits of a non-negative integer.\<close>

function digitsOf :: "int \<Rightarrow> jsstring" where
  "digitsOf n = (if n < 10 then [digitChar n] else digitsOf (n div 10) @ [digitChar (n mod 10)])"
  by pat_completeness auto
termination
  by (relation "measure nat") auto

declare digitsOf.simps [simp del]

text \<open>
  \<open>shortest x k\<close> looks for the least number of significant digits, from \<open>k\<close>
  up to 17, with which a decimal rounds back to the binary64 magnitude \<open>x > 0\<close>;
  the result \<open>(s, e)\<close> stands for \<open>s \<times> 10\<^sup>e\<close>. Of the two decimals next to
  \<open>x\<close> the closer one is taken.
\<close>

function shortest :: "rat \<Rightarrow> int \<Rightarrow> int \<times> int" where
  "shortest x k =
     (let e = ilog 10 x + 1 - k;
          lo = \<lfloor>x / pow10 e\<rfloor>;
          hi = lo + 1;
          okLo = (fl False (of_int lo * pow10 e) = Fin False x);
          okHi = (fl False (of_int hi * pow10 e) = Fin False x);
          dLo = x - of_int lo * pow10 e;
          dHi = of_int hi * pow10 e - x
      in if okLo \<and> (\<not> okHi \<or> dLo < dHi \<or> (dLo = dHi \<and> even lo)) then (lo, e)
         else if okHi then (hi, e)
         else if 17 \<le> k then (lo, e)
         else shortest x (k + 1))"
  by pat_completeness auto
termination
  by (relation "measure (\<lambda>(x, k). nat (17 - k))") auto

declare shortest.simps [simp del]

function stripZeros :: "int \<times> int \<Rightarrow> int \<times> int" where
  "stripZeros (s, e) =
     (if 0 < s \<and> s mod 10 = 0 then stripZeros (s div 10, e + 1) else (s, e))"
  by pat_completeness auto
termination
  by (relation "measure (\<lambda>(s, e). nat s)") auto

declare stripZeros.simps [simp del]

text \<open>
  Number::toString for radix 10. With \<open>k\<close> digits \<open>ds\<close> and the decimal point
  after the \<open>n\<close>-th digit: plain digits up to \<open>n = 21\<close>, a leading \<open>0.\<close> down
  to \<open>n = -5\<close>, exponent notation otherwise.
\<close>

definition formatDigits :: "jsstring \<Rightarrow> int \<Rightarrow> jsstring" where
  "formatDigits ds n =
     (let k = int (length ds) in
      if k \<le> n \<and> n \<le> 21 then ds @ replicate (nat (n - k)) (digitChar 0)
      else if 0 < n \<and> n \<le> 21 then take (nat n) ds @ ustr ''.'' @ drop (nat n) ds
      else if - 6 < n \<and> n \<le> 0 then ustr ''0.'' @ replicate (nat (- n)) (digitChar 0) @ ds
      else
        (if k = 1 then ds else take 1 ds @ ustr ''.'' @ drop 1 ds) @ ustr ''e'' @
        (if 0 \<le> n - 1 then ustr ''+'' else ustr ''-'') @ digitsOf \<bar>n - 1\<bar>)"

fun NumberToString :: "jsnum \<Rightarrow> jsstring" where
  "NumberToString NaN = ustr ''NaN''"
| "NumberToString (Infty s) = (if s then ustr ''-Infinity'' else ustr ''Infinity'')"
| "NumberToString (Fin s m) =
     (if m = 0 then ustr ''0''
      else
        let (d, e) = stripZeros (shortest m 1); ds = digitsOf d
        in (if s then ustr ''-'' else []) @ formatDigits ds (e + int (length ds)))"

text \<open>
  \<^verbatim>\<open>x.toFixed(0)\<close>: the nearest integer, the larger one at a tie, written in
  decimal; a negative \<open>x\<close> is written as \<open>-\<close> and the result for \<open>-x\<close>; from
  \<open>10\<^sup>2\<^sup>1\<close> on and for NaN and the infinities it is Number::toString.
\<close>

fun toFixed0 :: "jsnum \<Rightarrow> jsstring" where
  "toFixed0 (Fin s m) =
     (if pow10 21 \<le> m then NumberToString (Fin s m)
      else (if s \<and> m \<noteq> 0 then ustr ''-'' else []) @ digitsOf \<lfloor>m + 1 / 2\<rfloor>)"
| "toFixed0 x = NumberToString x"

subsection \<open>String to number\<close>

text \<open>
  \<^verbatim>\<open>Number(string)\<close> reads a StringNumericLiteral: white space and line
  terminators are trimmed, the empty rest is \<open>+0\<close>, then an unsigned binary,
  octal or hexadecimal integer, or a signed decimal literal or \<open>Infinity\<close>;
  anything else is NaN. The mathematical value is rounded to binary64.
\<close>

definition isStrWhiteSpaceChar :: "jschar \<Rightarrow> bool" where
  "isStrWhiteSpaceChar c =
     (c \<in> set [0x9, 0xA, 0xB, 0xC, 0xD, 0x20, 0xA0, 0x1680, 0x2028, 0x2029,
                 0x202F, 0x205F, 0x3000, 0xFEFF] \<or> (0x2000 \<le> c \<and> c \<le> 0x200A))"

definition trimWhiteSpace :: "jsstring \<Rightarrow> jsstring" where
  "trimWhiteSpace s =
     rev (dropWhile isStrWhiteSpaceChar (rev (dropWhile isStrWhiteSpaceChar s)))"

text \<open>The value of a digit or letter as a digit, \<open>99\<close> for any other unit.\<close>

definition digitValue :: "jschar \<Rightarrow> int" where
  "digitValue c =
     (if 0x30 \<le> c \<and> c \<le> 0x39 then uint c - 0x30
      else if 0x61 \<le> c \<and> c \<le> 0x66 then uint c - 0x61 + 10
      else if 0x41 \<le> c \<and> c \<le> 0x46 then uint c - 0x41 + 10
      else 99)"

definition isDigit :: "int \<Rightarrow> jschar \<Rightarrow> bool" where
  "isDigit base c = (digitValue c < base)"

definition digitsValue :: "int \<Rightarrow> jsstring \<Rightarrow> int" where
  "digitsValue base ds = foldl (\<lambda>acc c. acc * base + digitValue c) 0 ds"

definition isDigits :: "int \<Rightarrow> jsstring \<Rightarrow> bool" where
  "isDigits base ds = (ds \<noteq> [] \<and> list_all (isDigit base) ds)"

text \<open>NonDecimalIntegerLiteral: \<open>0b\<close>, \<open>0o\<close> or \<open>0x\<close> (either case) and digits.\<close>

definition nonDecimalBase :: "jsstring \<Rightarrow> int option" where
  "nonDecimalBase t =
     (case t of
        z # p # ds \<Rightarrow>
          (if z \<noteq> 0x30 then None
           else if (p = 0x62 \<or> p = 0x42) \<and> isDigits 2 ds then Some 2
           else if (p = 0x6F \<or> p = 0x4F) \<and> isDigits 8 ds then Some 8
           else if (p = 0x78 \<or> p = 0x58) \<and> isDigits 16 ds then Some 16
           else None)
      | _ \<Rightarrow> None)"

text \<open>ExponentPart, or nothing: \<open>e\<close> or \<open>E\<close>, an optional sign, digits.\<close>

definition parseExponent :: "jsstring \<Rightarrow> int option" where
  "parseExponent r =
     (case r of
        [] \<Rightarrow> Some 0
      | c # r1 \<Rightarrow>
          (if c \<noteq> 0x65 \<and> c \<noteq> 0x45 then None
           else (case r1 of
                   [] \<Rightarrow> None
                 | sg # ds \<Rightarrow>
                     (if sg = 0x2B then (if isDigits 10 ds then Some (digitsValue 10 ds) else None)
                      else if sg = 0x2D then (if isDigits 10 ds then Some (- digitsValue 10 ds) else None)
                      else if isDigits 10 r1 then Some (digitsValue 10 r1) else None))))"

text \<open>
  StrUnsignedDecimalLiteral other than \<open>Infinity\<close>: digits, an optional point and
  digits (at least one digit in all), an optional exponent.
\<close>

definition parseUnsignedDecimal :: "jsstring \<Rightarrow> rat option" where
  "parseUnsignedDecimal u =
     (let ip = takeWhile (isDigit 10) u;
          r1 = dropWhile (isDigit 10) u;
          hasPoint = (r1 \<noteq> [] \<and> hd r1 = 0x2E);
          fp = (if hasPoint then takeWhile (isDigit 10) (tl r1) else []);
          r2 = (if hasPoint then dropWhile (isDigit 10) (tl r1) else r1)
      in if ip = [] \<and> fp = [] then None
         else (case parseExponent r2 of
                 None \<Rightarrow> None
               | Some ex \<Rightarrow>
                   Some (of_int (digitsValue 10 (ip @ fp)) * pow10 (ex - int (length fp)))))"

definition StringToNumber :: "jsstring \<Rightarrow> jsnum" where
  "StringToNumber s =
     (let t = trimWhiteSpace s in
      if t = [] then Fin False 0
      else (case nonDecimalBase t of
              Some base \<Rightarrow> fl False (of_int (digitsValue base (drop 2 t)))
            | None \<Rightarrow>
                (let neg = (hd t = 0x2D);
                     u = (if hd t = 0x2B \<or> hd t = 0x2D then tl t else t)
                 in if u = ustr ''Infinity'' then Infty neg
                    else (case parseUnsignedDecimal u of
                            None \<Rightarrow> NaN
                          | Some q \<Rightarrow> fl neg q))))"

section \<open>JavaScript values and objects\<close>

text \<open>The values the program handles: \<^verbatim>\<open>undefined\<close>, strings and numbers.\<close>

datatype jsval = JUndefined | JString jsstring | JNumber jsnum

fun ToNumber :: "jsval \<Rightarrow> jsnum" where
  "ToNumber JUndefined = NaN"
| "ToNumber (JString s) = StringToNumber s"
| "ToNumber (JNumber n) = n"

fun ToString :: "jsval \<Rightarrow> jsstring" where
  "ToString JUndefined = ustr ''undefined''"
| "ToString (JString s) = s"
| "ToString (JNumber n) = NumberToString n"

text \<open>
  An object literal \<^verbatim>\<open>{}\<close> used as a dictionary: its own properties in the
  order of their creation. Reading a missing key gives \<^verbatim>\<open>undefined\<close>
  (\<open>None\<close>). Assigning to an existing key keeps its place, a new key goes to the
  end; assigning to \<^verbatim>\<open>__proto__\<close> runs the setter inherited from
  \<^verbatim>\<open>Object.prototype\<close> and creates no own property.
\<close>

type_synonym 'v jsobject = "(jsstring \<times> 'v) list"

definition getProp :: "'v jsobject \<Rightarrow> jsstring \<Rightarrow> 'v option" where
  "getProp obj key = map_of obj key"

definition setProp :: "'v jsobject \<Rightarrow> jsstring \<Rightarrow> 'v \<Rightarrow> 'v jsobject" where
  "setProp obj key v = (if key = ustr ''__proto__'' then obj else AList.update key v obj)"

text \<open>
  \<^verbatim>\<open>Object.keys\<close>: first the keys that are array indices (canonical decimal
  integers below \<open>2\<^sup>3\<^sup>2 - 1\<close>) in ascending order, then the other keys in
  creation order.
\<close>

definition isArrayIndex :: "jsstring \<Rightarrow> bool" where
  "isArrayIndex key =
     (isDigits 10 key \<and> (length key = 1 \<or> hd key \<noteq> 0x30) \<and> digitsValue 10 key < 4294967295)"

definition Object_keys :: "'v jsobject \<Rightarrow> jsstring list" where
  "Object_keys obj =
     sort_key (digitsValue 10) (filter isArrayIndex (map fst obj)) @
     filter (\<lambda>key. \<not> isArrayIndex key) (map fst obj)"

section \<open>utils.js\<close>

subsection \<open>prune\<close>

text \<open>
  The options object \<^verbatim>\<open>{ keepSpaces, asNumber }\<close>: each field is a boolean or
  absent. The text is a string or \<^verbatim>\<open>undefined\<close> (\<open>None\<close>).
\<close>

record pruneOpts =
  keepSpaces :: "bool option"
  asNumber :: "bool option"

definition noOpts :: pruneOpts where
  "noOpts = \<lparr>keepSpaces = None, asNumber = None\<rparr>"

definition prune :: "jsstring option \<Rightarrow> pruneOpts \<Rightarrow> jsval" where
  "prune string opts =
     (case string of
        None \<Rightarrow> JUndefined
      | Some str \<Rightarrow>
          (let str1 =
                 (if keepSpaces opts \<noteq> Some True
                  then (case find (\<lambda>candidate. length candidate \<noteq> 0) (split_space str) of
                          Some candidate \<Rightarrow> candidate
                        | None \<Rightarrow> str)
                  else str);
               str2 = replaceAll_degree str1
           in if asNumber opts = Some False then JString str2
              else JNumber (StringToNumber str2)))"

subsection \<open>prettifySymData\<close>

datatype error = TypeError

definition INDENT :: jsstring where
  "INDENT = ustr ''  ''"

definition DOUBLE_INDENT :: jsstring where
  "DOUBLE_INDENT = INDENT @ INDENT"

definition QUOTE :: jsstring where
  "QUOTE = [0x22]"

definition NEWLINE :: jsstring where
  "NEWLINE = [0xA]"

text \<open>
  The inner \<^verbatim>\<open>forEach\<close> over the attributes of one weapon: \<open>statsSeen\<close> counts
  the attributes written so far and \<open>result\<close> is the text so far. A key with no
  value reads as \<^verbatim>\<open>undefined\<close>.
\<close>

fun statsLoop :: "jsval jsobject \<Rightarrow> nat \<Rightarrow> jsstring list \<Rightarrow> nat \<Rightarrow> jsstring \<Rightarrow> jsstring" where
  "statsLoop stats numStats [] statsSeen result = result"
| "statsLoop stats numStats (attribute # rest) statsSeen result =
     (let comma = (if statsSeen + 1 < numStats then ustr '','' else []);
          v = (case getProp stats attribute of None \<Rightarrow> JUndefined | Some x \<Rightarrow> x)
      in statsLoop stats numStats rest (statsSeen + 1)
           (result @ DOUBLE_INDENT @ QUOTE @ attribute @ QUOTE @ ustr '': '' @ ToString v @
            comma @ NEWLINE))"

text \<open>
  The outer \<^verbatim>\<open>forEach\<close> over the weapons. \<^verbatim>\<open>Object.keys(stats)\<close> throws a
  TypeError should \<^verbatim>\<open>symData[weapon]\<close> be \<^verbatim>\<open>undefined\<close>.
\<close>

fun weaponsLoop :: "(jsval jsobject) jsobject \<Rightarrow> jsstring list \<Rightarrow> jsstring \<Rightarrow> error + jsstring" where
  "weaponsLoop symData [] result = Inr result"
| "weaponsLoop symData (weapon # rest) result =
     (case getProp symData weapon of
        None \<Rightarrow> Inl TypeError
      | Some stats \<Rightarrow>
          weaponsLoop symData rest
            (statsLoop stats (length (Object_keys stats)) (Object_keys stats) 0
               (result @ INDENT @ QUOTE @ weapon @ QUOTE @ ustr '': {'' @ NEWLINE)
             @ INDENT @ ustr ''},'' @ NEWLINE))"

definition prettifySymData :: "(jsval jsobject) jsobject \<Rightarrow> error + jsstring" where
  "prettifySymData symData =
     (case weaponsLoop symData (Object_keys symData) (ustr ''{'' @ NEWLINE) of
        Inl e \<Rightarrow> Inl e
      | Inr result \<Rightarrow> Inr (take (length result - 2) result @ NEWLINE @ ustr ''}''))"

section \<open>The parsed document\<close>

text \<open>
  The nodes below the document: an element has a local name, the tokens of its
  \<^verbatim>\<open>class\<close> attribute and its child nodes; text and comment nodes carry
  their data.
\<close>

datatype node =
    Element jsstring "jsstring list" "node list"
  | Text jsstring
  | Comment jsstring

fun isElement :: "node \<Rightarrow> bool" where
  "isElement (Element tag classes kids) = True"
| "isElement n = False"

fun childNodes :: "node \<Rightarrow> node list" where
  "childNodes (Element tag classes kids) = kids"
| "childNodes n = []"

text \<open>\<^verbatim>\<open>element.children\<close>: the child nodes that are elements.\<close>

definition children :: "node \<Rightarrow> node list" where
  "children n = filter isElement (childNodes n)"

text \<open>
  \<^verbatim>\<open>node.textContent\<close>: the data of a text or comment node; for an element
  the data of all text nodes below it, in document order.
\<close>

fun descendantText :: "node \<Rightarrow> jsstring" where
  "descendantText (Element tag classes kids) = concat (map descendantText kids)"
| "descendantText (Text d) = d"
| "descendantText (Comment d) = []"

fun textContent :: "node \<Rightarrow> jsstring" where
  "textContent (Comment d) = d"
| "textContent n = descendantText n"

text \<open>
  The nodes below a node in document order, each with its \<^verbatim>\<open>nextSibling\<close>
  (nodes carry no parent pointer, so the sibling is recorded on the way down).
\<close>

fun descendants :: "node \<Rightarrow> (node \<times> node option) list"
  and descendantsOfList :: "node list \<Rightarrow> (node \<times> node option) list" where
  "descendants (Element tag classes kids) = descendantsOfList kids"
| "descendants (Text d) = []"
| "descendants (Comment d) = []"
| "descendantsOfList [] = []"
| "descendantsOfList (n # ns) =
     (n, case ns of [] \<Rightarrow> None | m # ms \<Rightarrow> Some m) # descendants n @ descendantsOfList ns"

text \<open>
  The two kinds of selector the program uses: \<^verbatim>\<open>"." + className\<close> and the
  type selector \<^verbatim>\<open>"tr"\<close>. Class names are compared exactly, as in a document
  that is not in quirks mode; the scope itself is never among the matches.
\<close>

datatype selector = ByClass jsstring | ByTag jsstring

fun matches :: "selector \<Rightarrow> node \<Rightarrow> bool" where
  "matches (ByClass c) (Element tag classes kids) = (c \<in> set classes)"
| "matches (ByTag t) (Element tag classes kids) = (tag = t)"
| "matches sel n = False"

definition querySelectorAllSib :: "node \<Rightarrow> selector \<Rightarrow> (node \<times> node option) list" where
  "querySelectorAllSib scope sel = filter (\<lambda>(n, sib). matches sel n) (descendants scope)"

definition querySelectorAll :: "node \<Rightarrow> selector \<Rightarrow> node list" where
  "querySelectorAll scope sel = map fst (querySelectorAllSib scope sel)"

definition querySelector :: "node \<Rightarrow> selector \<Rightarrow> node option" where
  "querySelector scope sel =
     (case querySelectorAll scope sel of [] \<Rightarrow> None | n # ns \<Rightarrow> Some n)"

text \<open>\<^verbatim>\<open>list[i]\<close> on a NodeList or HTMLCollection: \<^verbatim>\<open>undefined\<close> out of range.\<close>

definition item :: "'a list \<Rightarrow> int \<Rightarrow> 'a option" where
  "item xs i = (if 0 \<le> i \<and> i < int (length xs) then Some (xs ! nat i) else None)"

text \<open>The \<^verbatim>\<open>%\<close> operator on integers: the result has the sign of the dividend.\<close>

definition jsrem :: "int \<Rightarrow> int \<Rightarrow> int" where
  "jsrem a b = sgn a * (\<bar>a\<bar> mod \<bar>b\<bar>)"

section \<open>The extraction script\<close>

text \<open>
  The functions below are the closures of the inner loop; the weapon element
  \<^verbatim>\<open>weapons[weaponIndex]\<close> and the record \<^verbatim>\<open>weaponData\<close> they capture are
  explicit arguments, and a closure that assigns to \<^verbatim>\<open>weaponData\<close> returns
  the updated record.
\<close>

type_synonym weaponRecord = "jsval jsobject"

text \<open>\<^verbatim>\<open>weaponData[key]\<close> as a value: \<^verbatim>\<open>undefined\<close> for a missing key.\<close>

definition readProp :: "weaponRecord \<Rightarrow> jsstring \<Rightarrow> jsval" where
  "readProp obj key = (case getProp obj key of None \<Rightarrow> JUndefined | Some v \<Rightarrow> v)"

definition getValue :: "node \<Rightarrow> jsstring \<Rightarrow> pruneOpts \<Rightarrow> jsval" where
  "getValue weapon className opts =
     prune (map_option textContent (querySelector weapon (ByClass className))) opts"

definition getValueOfSibling :: "node \<Rightarrow> jsstring \<Rightarrow> pruneOpts \<Rightarrow> jsval" where
  "getValueOfSibling weapon className opts =
     prune (case querySelectorAllSib weapon (ByClass className) of
              [] \<Rightarrow> None
            | (n, sib) # rest \<Rightarrow> map_option textContent sib) opts"

definition getAll :: "node \<Rightarrow> jsstring \<Rightarrow> node list" where
  "getAll weapon className = querySelectorAll weapon (ByClass className)"

definition getFirst :: "node \<Rightarrow> jsstring \<Rightarrow> node option" where
  "getFirst weapon className = item (getAll weapon className) 0"

text \<open>
  \<^verbatim>\<open>getSpread(row, col, dynamicCol)(property, className)\<close>. Every closure that
  \<^verbatim>\<open>getSpread\<close> returns is called once, so the decrement of its captured
  \<^verbatim>\<open>col\<close> happens at most once.
\<close>

definition getSpread ::
  "int \<Rightarrow> int \<Rightarrow> bool \<Rightarrow> jsstring \<Rightarrow> jsstring \<Rightarrow> node \<Rightarrow> weaponRecord \<Rightarrow> weaponRecord" where
  "getSpread row col dynamicCol property className weapon weaponData =
     (let col1 = (if dynamicCol \<and> jsrem row 3 \<noteq> 1 then col - 1 else col)
      in setProp weaponData property
           (prune
              (Option.bind (getFirst weapon className) (\<lambda>table.
               Option.bind (item (querySelectorAll table (ByTag (ustr ''tr''))) row) (\<lambda>tr.
               Option.bind (item (children tr) col1) (\<lambda>cell.
               Some (textContent cell)))))
              noOpts))"

definition getFssm ::
  "int \<Rightarrow> int \<Rightarrow> jsstring \<Rightarrow> jsstring \<Rightarrow> node \<Rightarrow> weaponRecord \<Rightarrow> weaponRecord" where
  "getFssm row col property className weapon weaponData =
     (let weaponData1 = getSpread row col True property className weapon weaponData;
          firstSips = ToNumber (readProp weaponData1 property);
          sips = ToNumber (readProp weaponData1 (ustr ''adsStandSpreadInc''))
      in setProp weaponData1 property
           (JNumber (if strictEqZero sips then sips
                     else StringToNumber (toFixed0 (jsdiv firstSips sips)))))"

text \<open>The loop of the \<^verbatim>\<open>pellets\<close> rule over the labels, up to its \<^verbatim>\<open>break\<close>.\<close>

fun pelletsLoop :: "jsstring \<Rightarrow> node list \<Rightarrow> weaponRecord \<Rightarrow> weaponRecord" where
  "pelletsLoop property [] weaponData = weaponData"
| "pelletsLoop property (label # rest) weaponData =
     (if includes_str (textContent label) (ustr ''pellets'')
      then setProp weaponData property (prune (Some (textContent label)) noOpts)
      else pelletsLoop property rest weaponData)"

definition pelletsRule :: "jsstring \<Rightarrow> jsstring \<Rightarrow> node \<Rightarrow> weaponRecord \<Rightarrow> weaponRecord" where
  "pelletsRule property className weapon weaponData =
     pelletsLoop property (getAll weapon className) weaponData"

definition recoilLeftRule :: "jsstring \<Rightarrow> jsstring \<Rightarrow> node \<Rightarrow> weaponRecord \<Rightarrow> weaponRecord" where
  "recoilLeftRule property className weapon weaponData =
     (let number = getValue weapon className noOpts
      in setProp weaponData property (JNumber (abs_num (ToNumber number))))"

definition recoilRightRule :: "jsstring \<Rightarrow> jsstring \<Rightarrow> node \<Rightarrow> weaponRecord \<Rightarrow> weaponRecord" where
  "recoilRightRule property className weapon weaponData =
     (let number = getValueOfSibling weapon className noOpts
      in setProp weaponData property (JNumber (abs_num (ToNumber number))))"

definition recoilFirstShotRule :: "jsstring \<Rightarrow> jsstring \<Rightarrow> node \<Rightarrow> weaponRecord \<Rightarrow> weaponRecord" where
  "recoilFirstShotRule property className weapon weaponData =
     setProp weaponData property
       (prune
          (Option.bind (getFirst weapon className) (\<lambda>first.
           Option.bind (item (children first) 1) (\<lambda>cell.
           Some (textContent cell))))
          noOpts)"

text \<open>
  The rule list: the property of the record, the class name to look for, and
  the custom behaviour, if any.
\<close>

type_synonym customBehavior = "jsstring \<Rightarrow> jsstring \<Rightarrow> node \<Rightarrow> weaponRecord \<Rightarrow> weaponRecord"

type_synonym rule = "jsstring \<times> jsstring \<times> customBehavior option"

definition rules :: "rule list" where
  "rules =
     [(ustr ''ammoCapacity'', ustr ''lblMag'', None),
      (ustr ''rateOfFire'', ustr ''lblRPMValue'', None),
      (ustr ''pellets'', ustr ''chartMinMaxLabel'', Some pelletsRule),
      (ustr ''initialVelocity'', ustr ''lblSpeedValue'', None),
      (ustr ''dragCoefficient'', ustr ''lblDragCoe'', None),
      (ustr ''reloadTime'', ustr ''lblReloadLeft'', None),
      (ustr ''reloadTimeEmpty'', ustr ''lblReloadEmpty'', None),
      (ustr ''deployTime'', ustr ''lblDeployTime'', None),
      (ustr ''verticalRecoil'', ustr ''recoilInitUpValue'', None),
      (ustr ''recoilLeft'', ustr ''recoilHorValue'', Some recoilLeftRule),
      (ustr ''recoilRight'', ustr ''recoilHorValue'', Some recoilRightRule),
      (ustr ''recoilFirstShotMultiplier'', ustr ''recoilFirstShot'', Some recoilFirstShotRule),
      (ustr ''recoilDecrease'', ustr ''recoilDec'', None),
      (ustr ''dispersion'', ustr ''hipSpreadValue'', None),
      (ustr ''adsStandBaseMin'', ustr ''spreadTable'', Some (getSpread 1 1 True)),
      (ustr ''adsStandBaseMax'', ustr ''spreadTable'', Some (getSpread 1 2 True)),
      (ustr ''adsCrouchBaseMin'', ustr ''spreadTable'', Some (getSpread 2 1 True)),
      (ustr ''adsCrouchBaseMax'', ustr ''spreadTable'', Some (getSpread 2 2 True)),
      (ustr ''adsProneBaseMin'', ustr ''spreadTable'', Some (getSpread 3 1 True)),
      (ustr ''adsProneBaseMax'', ustr ''spreadTable'', Some (getSpread 3 2 True)),
      (ustr ''hipStandBaseMin'', ustr ''spreadTable'', Some (getSpread 4 1 True)),
      (ustr ''hipStandBaseMax'', ustr ''spreadTable'', Some (getSpread 4 2 True)),
      (ustr ''hipCrouchBaseMin'', ustr ''spreadTable'', Some (getSpread 5 1 True)),
      (ustr ''hipCrouchBaseMax'', ustr ''spreadTable'', Some (getSpread 5 2 True)),
      (ustr ''hipProneBaseMin'', ustr ''spreadTable'', Some (getSpread 6 1 True)),
      (ustr ''hipProneBaseMax'', ustr ''spreadTable'', Some (getSpread 6 2 True)),
      (ustr ''adsStandSpreadInc'', ustr ''spreadIncDecTable'', Some (getSpread 2 1 False)),
      (ustr ''hipStandSpreadInc'', ustr ''spreadIncDecTable'', Some (getSpread 2 2 False)),
      (ustr ''adsStandFirstSpreadMul'', ustr ''spreadIncDecTable'', Some (getFssm 1 1)),
      (ustr ''hipStandFirstSpreadMul'', ustr ''spreadIncDecTable'', Some (getFssm 1 2)),
      (ustr ''adsStandSpreadDec'', ustr ''spreadIncDecTable'', Some (getSpread 3 1 False)),
      (ustr ''hipStandSpreadDec'', ustr ''spreadIncDecTable'', Some (getSpread 3 2 False))]"

text \<open>The body of the \<^verbatim>\<open>forEach\<close> over the rule list.\<close>

fun applyRule :: "node \<Rightarrow> rule \<Rightarrow> weaponRecord \<Rightarrow> weaponRecord" where
  "applyRule weapon (property, className, Some customBehavior) weaponData =
     customBehavior property className weapon weaponData"
| "applyRule weapon (property, className, None) weaponData =
     (let v = getValue weapon className noOpts
      in if v = JUndefined then weaponData else setProp weaponData property v)"

definition extractWeapon :: "node \<Rightarrow> weaponRecord" where
  "extractWeapon weapon = fold (applyRule weapon) rules []"

text \<open>
  One round of the inner loop. The script assigns the empty record to
  \<^verbatim>\<open>symData[weaponName]\<close> first and fills it afterwards through the same
  reference; the rules never read \<^verbatim>\<open>symData\<close>, so assigning the filled
  record is the same. A property key that is \<^verbatim>\<open>undefined\<close> is converted to
  the string \<^verbatim>\<open>"undefined"\<close>.
\<close>

definition weaponName :: "node \<Rightarrow> jsval" where
  "weaponName weapon =
     getValue weapon (ustr ''lblWeaponNameValue'')
       \<lparr>keepSpaces = Some True, asNumber = Some False\<rparr>"

definition processWeapon :: "node \<Rightarrow> weaponRecord jsobject \<Rightarrow> weaponRecord jsobject" where
  "processWeapon weapon symData =
     setProp symData (ToString (weaponName weapon)) (extractWeapon weapon)"

text \<open>
  The weapon blocks in the order of the two loops: the element children of every
  element of class \<^verbatim>\<open>sortableTable\<close> below the document node.
\<close>

definition weaponsOf :: "node \<Rightarrow> node list" where
  "weaponsOf document =
     concat (map children (querySelectorAll document (ByClass (ustr ''sortableTable''))))"

definition buildSymData :: "node \<Rightarrow> weaponRecord jsobject" where
  "buildSymData document = fold processWeapon (weaponsOf document) []"

text \<open>
  The cell that \<^verbatim>\<open>getSpread\<close> reads: the chain of optional reads from the
  first element of the class to the text of the cell, \<^verbatim>\<open>undefined\<close> as soon
  as a link is missing.
\<close>

definition cellText :: "node \<Rightarrow> jsstring \<Rightarrow> int \<Rightarrow> int \<Rightarrow> jsstring option" where
  "cellText weapon className row col =
     Option.bind (getFirst weapon className) (\<lambda>table.
     Option.bind (item (querySelectorAll table (ByTag (ustr ''tr''))) row) (\<lambda>tr.
     Option.bind (item (children tr) col) (\<lambda>cell.
     Some (textContent cell))))"

subsection \<open>The earlier revision of the script\<close>

text \<open>
  The earlier revision keeps the text of every field: its \<^verbatim>\<open>prune\<close> has no
  \<^verbatim>\<open>asNumber\<close> option and returns the string. Its rule for
  \<^verbatim>\<open>hipStandFirstSpreadMul\<close> is written out in the rule list.
\<close>

definition prune_v1 :: "jsstring option \<Rightarrow> bool option \<Rightarrow> jsval" where
  "prune_v1 string keepSpaces1 =
     (case string of
        None \<Rightarrow> JUndefined
      | Some str \<Rightarrow>
          (let str1 =
                 (if keepSpaces1 \<noteq> Some True
                  then (case find (\<lambda>candidate. length candidate \<noteq> 0) (split_space str) of
                          Some candidate \<Rightarrow> candidate
                        | None \<Rightarrow> str)
                  else str)
           in JString (replaceAll_degree str1)))"

definition getSpread_v1 ::
  "int \<Rightarrow> int \<Rightarrow> bool \<Rightarrow> jsstring \<Rightarrow> jsstring \<Rightarrow> node \<Rightarrow> weaponRecord \<Rightarrow> weaponRecord" where
  "getSpread_v1 row col dynamicCol property className weapon weaponData =
     (let col1 = (if dynamicCol \<and> jsrem row 3 \<noteq> 1 then col - 1 else col)
      in setProp weaponData property
           (prune_v1
              (Option.bind (getFirst weapon className) (\<lambda>table.
               Option.bind (item (querySelectorAll table (ByTag (ustr ''tr''))) row) (\<lambda>tr.
               Option.bind (item (children tr) col1) (\<lambda>cell.
               Some (textContent cell)))))
              None))"

definition hipStandFirstSpreadMul_v1 ::
  "jsstring \<Rightarrow> jsstring \<Rightarrow> node \<Rightarrow> weaponRecord \<Rightarrow> weaponRecord" where
  "hipStandFirstSpreadMul_v1 property className weapon weaponData =
     (let weaponData1 = getSpread_v1 1 2 True property className weapon weaponData;
          firstSips = ToNumber (readProp weaponData1 property);
          sips = ToNumber (readProp weaponData1 (ustr ''hipStandSpreadInc''))
      in setProp weaponData1 property
           (if strictEqZero sips then JNumber sips
            else JString (toFixed0 (jsdiv firstSips sips))))"

section \<open>Example weapon blocks\<close>

text \<open>
  Small weapon blocks on which the script is evaluated below. A spread table
  has a header row and six data rows, of which the first and the fourth carry
  one more leading cell than the others; the table of increases and decreases
  has a header row and the rows \<open>First\<close>, \<open>Inc\<close> and \<open>Dec\<close>, each with a label
  and the two values for aiming and for hip fire.
\<close>

definition labelled :: "string \<Rightarrow> string \<Rightarrow> node" where
  "labelled className txt = Element (ustr ''span'') [ustr className] [Text (ustr txt)]"

definition tableCell :: "string \<Rightarrow> node" where
  "tableCell txt = Element (ustr ''td'') [] [Text (ustr txt)]"

definition tableRow :: "string list \<Rightarrow> node" where
  "tableRow txts = Element (ustr ''tr'') [] (map tableCell txts)"

definition spreadTable :: node where
  "spreadTable =
     Element (ustr ''table'') [ustr ''spreadTable'']
       [Element (ustr ''tbody'') []
          [tableRow [''Mode'', ''Stance'', ''Min'', ''Max''],
           tableRow [''ADS'', ''11'', ''12''],
           tableRow [''21'', ''22''],
           tableRow [''31'', ''32''],
           tableRow [''HIP'', ''41'', ''42''],
           tableRow [''51'', ''52''],
           tableRow [''61'', ''62'']]]"

definition spreadIncDecTable :: "string \<Rightarrow> string \<Rightarrow> string \<Rightarrow> string \<Rightarrow> node" where
  "spreadIncDecTable firstAds firstHip incAds incHip =
     Element (ustr ''table'') [ustr ''spreadIncDecTable'']
       [Element (ustr ''tbody'') []
          [tableRow [''Spread'', ''ADS'', ''HIP''],
           tableRow [''First'', firstAds, firstHip],
           tableRow [''Inc'', incAds, incHip],
           tableRow [''Dec'', ''1'', ''3'']]]"

definition garand :: node where
  "garand =
     Element (ustr ''div'') []
       [labelled ''lblWeaponNameValue'' ''M1 Garand'',
        Text (ustr '' ''),
        labelled ''lblMag'' ''8'',
        labelled ''chartMinMaxLabel'' ''max'',
        labelled ''chartMinMaxLabel'' ''12 pellets'',
        spreadTable,
        spreadIncDecTable ''7'' ''8'' ''2'' ''4'']"

definition steadyWeapon :: node where
  "steadyWeapon =
     Element (ustr ''div'') []
       [labelled ''lblWeaponNameValue'' ''Steady'',
        spreadIncDecTable ''7'' ''8'' ''0'' ''4'']"

definition bareWeapon :: node where
  "bareWeapon = Element (ustr ''div'') [] [labelled ''lblWeaponNameValue'' ''Bare'']"

definition namelessWeapon :: node where
  "namelessWeapon = Element (ustr ''div'') [] [labelled ''lblMag'' ''8'']"

definition protoWeapon :: node where
  "protoWeapon = Element (ustr ''div'') [] [labelled ''lblWeaponNameValue'' ''__proto__'']"

text \<open>A document with one weapon class: the document node, \<open>html\<close>, \<open>body\<close>, the class.\<close>

definition documentOf :: "node list \<Rightarrow> node" where
  "documentOf weapons =
     Element (ustr ''#document'') []
       [Element (ustr ''html'') []
          [Element (ustr ''body'') []
             [Element (ustr ''div'') [ustr ''sortableTable''] weapons]]]"

section \<open>Evaluation on numerals\<close>

text \<open>Floors and ceilings of numeral fractions, for evaluating the number model.\<close>

lemma floor_numeral_div: "\<lfloor>numeral a / numeral b :: rat\<rfloor> = numeral a div numeral b"
  using floor_divide_of_int_eq [of "numeral a" "numeral b", where ?'a = rat] by simp

lemma floor_one_div: "\<lfloor>1 / numeral b :: rat\<rfloor> = 1 div numeral b"
  using floor_divide_of_int_eq [of 1 "numeral b", where ?'a = rat] by simp

lemma ceiling_numeral_div: "\<lceil>numeral a / numeral b :: rat\<rceil> = - (- numeral a div numeral b)"
  using floor_divide_of_int_eq [of "- numeral a" "numeral b", where ?'a = rat]
  by (simp add: ceiling_def)

lemma ceiling_one_div: "\<lceil>1 / numeral b :: rat\<rceil> = - (- 1 div numeral b)"
  using floor_divide_of_int_eq [of "- 1" "numeral b", where ?'a = rat]
  by (simp add: ceiling_def)

declare jsdiv.simps [simp del] NumberToString.simps [simp del] toFixed0.simps [simp del]

lemmas num_eval =
  fl_def ilog_def pow2_def pow10_def roundHalfEven_def Let_def ndigits.simps jsdiv.simps
  floor_numeral_div floor_one_div ceiling_numeral_div ceiling_one_div

lemmas str_eval =
  StringToNumber_def trimWhiteSpace_def isStrWhiteSpaceChar_def nonDecimalBase_def
  parseUnsignedDecimal_def parseExponent_def isDigit_def isDigits_def digitValue_def
  digitsValue_def ustr_def

lemmas tostr_eval =
  NumberToString.simps toFixed0.simps shortest.simps stripZeros.simps digitsOf.simps
  formatDigits_def digitChar_def ustr_def

lemmas keys_eval =
  Object_keys_def isArrayIndex_def isDigits_def isDigit_def digitValue_def ustr_def

section \<open>Properties of the serializer\<close>

text \<open>The text written so far is only extended by the two loops.\<close>

lemma statsLoop_acc:
  "statsLoop st n ks seen (a @ r) = a @ statsLoop st n ks seen r"
  by (induction ks arbitrary: seen r) (simp_all add: Let_def)

lemma weaponsLoop_acc:
  "weaponsLoop sd ks (a @ r) =
     (case weaponsLoop sd ks r of Inl e \<Rightarrow> Inl e | Inr x \<Rightarrow> Inr (a @ x))"
proof (induction ks arbitrary: r)
  case Nil
  show ?case by simp
next
  case (Cons k ks)
  show ?case
  proof (cases "getProp sd k")
    case None
    then show ?thesis by simp
  next
    case (Some st)
    have "statsLoop st (length (Object_keys st)) (Object_keys st) 0
            ((a @ r) @ INDENT @ QUOTE @ k @ QUOTE @ ustr '': {'' @ NEWLINE) @ INDENT @ ustr ''},'' @ NEWLINE
          = a @ (statsLoop st (length (Object_keys st)) (Object_keys st) 0
            (r @ INDENT @ QUOTE @ k @ QUOTE @ ustr '': {'' @ NEWLINE) @ INDENT @ ustr ''},'' @ NEWLINE)"
      using statsLoop_acc [of st _ _ 0 a] by simp
    with Some Cons.IH show ?thesis by simp
  qed
qed

lemma set_Object_keys: "set (Object_keys obj) = fst ` set obj"
  by (auto simp: Object_keys_def)

lemma weaponsLoop_total:
  "set ks \<subseteq> fst ` set sd \<Longrightarrow> \<exists>x. weaponsLoop sd ks r = Inr x"
proof (induction ks arbitrary: r)
  case Nil
  show ?case by simp
next
  case (Cons k ks)
  from Cons.prems have "k \<in> fst ` set sd" by simp
  then obtain st where "getProp sd k = Some st"
    by (metis getProp_def map_of_eq_None_iff not_Some_eq)
  moreover from Cons.prems have "set ks \<subseteq> fst ` set sd" by simp
  ultimately show ?case using Cons.IH by simp
qed

lemma weaponsLoop_shape:
  "ks \<noteq> [] \<Longrightarrow> weaponsLoop sd ks r = Inr x \<Longrightarrow> \<exists>y. x = r @ y @ ustr ''},'' @ NEWLINE"
proof (induction ks arbitrary: r x)
  case Nil
  then show ?case by simp
next
  case (Cons k ks)
  from Cons.prems(2) obtain st where st: "getProp sd k = Some st"
    by (cases "getProp sd k") simp_all
  define body where "body = statsLoop st (length (Object_keys st)) (Object_keys st) 0
       (INDENT @ QUOTE @ k @ QUOTE @ ustr '': {'' @ NEWLINE) @ INDENT"
  have r1: "statsLoop st (length (Object_keys st)) (Object_keys st) 0
       (r @ INDENT @ QUOTE @ k @ QUOTE @ ustr '': {'' @ NEWLINE) @ INDENT @ ustr ''},'' @ NEWLINE
       = r @ body @ ustr ''},'' @ NEWLINE"
    using statsLoop_acc [of st _ _ 0 r] by (simp add: body_def)
  from Cons.prems(2) st r1 have run: "weaponsLoop sd ks (r @ body @ ustr ''},'' @ NEWLINE) = Inr x"
    by simp
  show ?case
  proof (cases "ks = []")
    case True
    with run show ?thesis by auto
  next
    case False
    from Cons.IH [OF False run] obtain y where "x = (r @ body @ ustr ''},'' @ NEWLINE) @ y @ ustr ''},'' @ NEWLINE"
      by blast
    then have "x = r @ (body @ ustr ''},'' @ NEWLINE @ y) @ ustr ''},'' @ NEWLINE" by simp
    then show ?thesis by blast
  qed
qed

text \<open>
  C10. For the empty mapping \<^verbatim>\<open>prettifySymData\<close> returns the two code units
  line feed and \<open>}\<close>: cutting the last two units of the accumulated text removes
  the opening \<open>{\<close> and its line feed, so the result is not \<open>{}\<close>. For every
  non-empty mapping the result starts with \<open>{\<close> and ends with \<open>}\<close>.
\<close>

theorem prettifySymData_empty_and_nonempty:
  "prettifySymData [] = Inr [0xA, 0x7D] \<and>
   prettifySymData [] \<noteq> Inr (ustr ''{}'') \<and>
   (\<forall>symData. symData \<noteq> [] \<longrightarrow>
      (\<exists>out. prettifySymData symData = Inr out \<and> hd out = 0x7B \<and> last out = 0x7D))"
proof (intro conjI allI impI)
  show e: "prettifySymData [] = Inr [0xA, 0x7D]"
    by (simp add: prettifySymData_def Object_keys_def ustr_def NEWLINE_def)
  show "prettifySymData [] \<noteq> Inr (ustr ''{}'')"
    by (simp add: e ustr_def)
next
  fix symData :: "(jsval jsobject) jsobject"
  assume ne: "symData \<noteq> []"
  then have ks: "Object_keys symData \<noteq> []"
    using set_Object_keys [of symData] by (cases symData) auto
  obtain x where x: "weaponsLoop symData (Object_keys symData) (ustr ''{'' @ NEWLINE) = Inr x"
    using weaponsLoop_total [of "Object_keys symData" symData] set_Object_keys [of symData] by blast
  from weaponsLoop_shape [OF ks x] obtain y where
    y: "x = (ustr ''{'' @ NEWLINE) @ y @ ustr ''},'' @ NEWLINE" by blast
  have tk: "take (length x - 2) x = ustr ''{'' @ NEWLINE @ y @ ustr ''}''"
    by (simp add: y ustr_def NEWLINE_def)
  have "prettifySymData symData = Inr (ustr ''{'' @ NEWLINE @ y @ ustr ''}'' @ NEWLINE @ ustr ''}'')"
    by (simp add: prettifySymData_def x tk)
  then show "\<exists>out. prettifySymData symData = Inr out \<and> hd out = 0x7B \<and> last out = 0x7D"
    by (simp add: ustr_def)
qed

theorem prettifySymData_empty_and_nonempty_witness:
  "[(ustr ''M1'', [])] \<noteq> ([] :: (jsval jsobject) jsobject) \<and>
   (\<exists>out. prettifySymData [(ustr ''M1'', [])] = Inr out \<and> hd out = 0x7B \<and> last out = 0x7D)"
  using prettifySymData_empty_and_nonempty by simp

lemma take_close:
  "take (length (xs @ ustr ''},'' @ NEWLINE) - 2) (xs @ ustr ''},'' @ NEWLINE) = xs @ ustr ''}''"
  by (simp add: ustr_def NEWLINE_def)

text \<open>
  C9. For a mapping whose keys are two weapons, each with two attributes, the
  output is exactly the text below: a comma ends the line of the first attribute
  of each weapon, no comma ends the line of its last attribute, the brace closing
  the first weapon is followed by a comma and the brace closing the last weapon
  is not.
\<close>

theorem prettifySymData_two_weapons:
  assumes "Object_keys symData = [w1, w2]"
    and "getProp symData w1 = Some s1" and "getProp symData w2 = Some s2"
    and "Object_keys s1 = [a1, a2]" and "Object_keys s2 = [b1, b2]"
    and "getProp s1 a1 = Some v1" and "getProp s1 a2 = Some v2"
    and "getProp s2 b1 = Some u1" and "getProp s2 b2 = Some u2"
  shows "prettifySymData symData = Inr (
      ustr ''{'' @ NEWLINE @
      INDENT @ QUOTE @ w1 @ QUOTE @ ustr '': {'' @ NEWLINE @
      DOUBLE_INDENT @ QUOTE @ a1 @ QUOTE @ ustr '': '' @ ToString v1 @ ustr '','' @ NEWLINE @
      DOUBLE_INDENT @ QUOTE @ a2 @ QUOTE @ ustr '': '' @ ToString v2 @ NEWLINE @
      INDENT @ ustr ''},'' @ NEWLINE @
      INDENT @ QUOTE @ w2 @ QUOTE @ ustr '': {'' @ NEWLINE @
      DOUBLE_INDENT @ QUOTE @ b1 @ QUOTE @ ustr '': '' @ ToString u1 @ ustr '','' @ NEWLINE @
      DOUBLE_INDENT @ QUOTE @ b2 @ QUOTE @ ustr '': '' @ ToString u2 @ NEWLINE @
      INDENT @ ustr ''}'' @ NEWLINE @
      ustr ''}'')"
proof -
  define body where "body =
      ustr ''{'' @ NEWLINE @
      INDENT @ QUOTE @ w1 @ QUOTE @ ustr '': {'' @ NEWLINE @
      DOUBLE_INDENT @ QUOTE @ a1 @ QUOTE @ ustr '': '' @ ToString v1 @ ustr '','' @ NEWLINE @
      DOUBLE_INDENT @ QUOTE @ a2 @ QUOTE @ ustr '': '' @ ToString v2 @ NEWLINE @
      INDENT @ ustr ''},'' @ NEWLINE @
      INDENT @ QUOTE @ w2 @ QUOTE @ ustr '': {'' @ NEWLINE @
      DOUBLE_INDENT @ QUOTE @ b1 @ QUOTE @ ustr '': '' @ ToString u1 @ ustr '','' @ NEWLINE @
      DOUBLE_INDENT @ QUOTE @ b2 @ QUOTE @ ustr '': '' @ ToString u2 @ NEWLINE @
      INDENT"
  have loop: "weaponsLoop symData [w1, w2] (ustr ''{'' @ NEWLINE) = Inr (body @ ustr ''},'' @ NEWLINE)"
    using assms(2-9) by (simp add: body_def)
  show ?thesis
    unfolding prettifySymData_def assms(1) loop
    by (simp only: sum.case take_close) (simp add: body_def)
qed

theorem prettifySymData_two_weapons_witness:
  "prettifySymData
     [(ustr ''M1 Garand'', [(ustr ''ammoCapacity'', JNumber (Fin False 8)), (ustr ''rateOfFire'', JUndefined)]),
      (ustr ''Kar98k'', [(ustr ''ammoCapacity'', JNumber (Fin False (7 / 2))), (ustr ''pellets'', JString (ustr ''12''))])]
   = Inr (
      ustr ''{'' @ NEWLINE @
      INDENT @ QUOTE @ ustr ''M1 Garand'' @ QUOTE @ ustr '': {'' @ NEWLINE @
      DOUBLE_INDENT @ QUOTE @ ustr ''ammoCapacity'' @ QUOTE @ ustr '': '' @ ustr ''8'' @ ustr '','' @ NEWLINE @
      DOUBLE_INDENT @ QUOTE @ ustr ''rateOfFire'' @ QUOTE @ ustr '': '' @ ustr ''undefined'' @ NEWLINE @
      INDENT @ ustr ''},'' @ NEWLINE @
      INDENT @ QUOTE @ ustr ''Kar98k'' @ QUOTE @ ustr '': {'' @ NEWLINE @
      DOUBLE_INDENT @ QUOTE @ ustr ''ammoCapacity'' @ QUOTE @ ustr '': '' @ ustr ''3.5'' @ ustr '','' @ NEWLINE @
      DOUBLE_INDENT @ QUOTE @ ustr ''pellets'' @ QUOTE @ ustr '': '' @ ustr ''12'' @ NEWLINE @
      INDENT @ ustr ''}'' @ NEWLINE @
      ustr ''}'')"
proof -
  let ?s1 = "[(ustr ''ammoCapacity'', JNumber (Fin False 8)), (ustr ''rateOfFire'', JUndefined)]"
  let ?s2 = "[(ustr ''ammoCapacity'', JNumber (Fin False (7 / 2))), (ustr ''pellets'', JString (ustr ''12''))]"
  let ?sd = "[(ustr ''M1 Garand'', ?s1), (ustr ''Kar98k'', ?s2)]"
  have k: "Object_keys ?sd = [ustr ''M1 Garand'', ustr ''Kar98k'']"
    by (simp add: keys_eval)
  have k1: "Object_keys ?s1 = [ustr ''ammoCapacity'', ustr ''rateOfFire'']"
    by (simp add: keys_eval)
  have k2: "Object_keys ?s2 = [ustr ''ammoCapacity'', ustr ''pellets'']"
    by (simp add: keys_eval)
  have g1: "getProp ?sd (ustr ''M1 Garand'') = Some ?s1" by (simp add: getProp_def)
  have g2: "getProp ?sd (ustr ''Kar98k'') = Some ?s2" by (simp add: getProp_def ustr_def)
  have p1: "getProp ?s1 (ustr ''ammoCapacity'') = Some (JNumber (Fin False 8))" by (simp add: getProp_def)
  have p2: "getProp ?s1 (ustr ''rateOfFire'') = Some JUndefined" by (simp add: getProp_def ustr_def)
  have p3: "getProp ?s2 (ustr ''ammoCapacity'') = Some (JNumber (Fin False (7 / 2)))" by (simp add: getProp_def)
  have p4: "getProp ?s2 (ustr ''pellets'') = Some (JString (ustr ''12''))" by (simp add: getProp_def ustr_def)
  have n8: "NumberToString (Fin False 8) = ustr ''8''"
    by (simp add: tostr_eval num_eval)
  have n35: "NumberToString (Fin False (7 / 2)) = ustr ''3.5''"
    by (simp add: tostr_eval num_eval)
  show ?thesis
    using prettifySymData_two_weapons [OF k g1 g2 k1 k2 p1 p2 p3 p4]
    by (simp only: ToString.simps n8 n35)
qed

section \<open>Properties of the normalizer\<close>

lemma find_token_spaces:
  "set s \<subseteq> {SPACE} \<Longrightarrow> find (\<lambda>candidate. candidate \<noteq> []) (split_space s) = None"
  by (induction s) simp_all

lemma replaceAll_degree_spaces: "set s \<subseteq> {SPACE} \<Longrightarrow> replaceAll_degree s = s"
  by (induction s) (simp_all add: replaceAll_degree_def SPACE_def DEGREE_def)

lemma isStrWhiteSpaceChar_SPACE: "isStrWhiteSpaceChar SPACE"
  by (simp add: isStrWhiteSpaceChar_def SPACE_def)

lemma StringToNumber_spaces: "set s \<subseteq> {SPACE} \<Longrightarrow> StringToNumber s = Fin False 0"
proof -
  assume a: "set s \<subseteq> {SPACE}"
  then have d: "dropWhile isStrWhiteSpaceChar s = []"
    using isStrWhiteSpaceChar_SPACE by (auto simp: dropWhile_eq_Nil_conv)
  show ?thesis
    unfolding StringToNumber_def trimWhiteSpace_def d by simp
qed

text \<open>
  C5 (amended). For a text of space characters only (no non-empty token between
  spaces), \<^verbatim>\<open>prune\<close> with \<^verbatim>\<open>keepSpaces\<close> false or absent and
  \<^verbatim>\<open>asNumber: false\<close> returns the text unchanged; with any other
  \<^verbatim>\<open>asNumber\<close> it returns the number \<open>+0\<close>, the value of \<^verbatim>\<open>Number\<close>
  on that text.
\<close>

theorem prune_only_spaces:
  assumes "set s \<subseteq> {SPACE}" and "ks \<noteq> Some True"
  shows "prune (Some s) \<lparr>keepSpaces = ks, asNumber = Some False\<rparr> = JString s \<and>
         (an \<noteq> Some False \<longrightarrow>
            prune (Some s) \<lparr>keepSpaces = ks, asNumber = an\<rparr> = JNumber (Fin False 0))"
  using assms
  by (simp add: prune_def find_token_spaces replaceAll_degree_spaces StringToNumber_spaces)

theorem prune_only_spaces_witness:
  "set (ustr ''   '') \<subseteq> {SPACE} \<and> Some False \<noteq> Some True \<and>
   prune (Some (ustr ''   '')) \<lparr>keepSpaces = Some False, asNumber = Some False\<rparr> = JString (ustr ''   '') \<and>
   None \<noteq> Some False \<and>
   prune (Some (ustr ''   '')) \<lparr>keepSpaces = Some False, asNumber = None\<rparr> = JNumber (Fin False 0)"
proof -
  have s: "set (ustr ''   '') \<subseteq> {SPACE}"
    by (simp add: ustr_def SPACE_def)
  show ?thesis
    using s prune_only_spaces [OF s, of "Some False" None] by simp
qed

theorem prune_only_spaces_counterexample:
  "set (ustr ''   '') \<subseteq> {SPACE} \<and>
   prune (Some (ustr ''   '')) \<lparr>keepSpaces = Some False, asNumber = None\<rparr> = JNumber (Fin False 0) \<and>
   prune (Some (ustr ''   '')) \<lparr>keepSpaces = Some False, asNumber = None\<rparr> \<noteq> JString (ustr ''   '')"
proof -
  have "split_space (ustr ''   '') = [[], [], [], []]"
    by (simp add: ustr_def SPACE_def)
  then have "prune (Some (ustr ''   '')) \<lparr>keepSpaces = Some False, asNumber = None\<rparr>
      = JNumber (StringToNumber (ustr ''   ''))"
    by (simp add: prune_def replaceAll_degree_def ustr_def DEGREE_def)
  moreover have "StringToNumber (ustr ''   '') = Fin False 0"
    by (simp add: str_eval)
  ultimately show ?thesis
    by (simp add: ustr_def SPACE_def)
qed

lemma split_space_nonempty: "split_space s \<noteq> []"
  by (induction s) (simp_all split: list.splits)

lemma split_space_token:
  "SPACE \<notin> set tok \<Longrightarrow> rest = [] \<or> hd rest = SPACE \<Longrightarrow>
   \<exists>ts. split_space (tok @ rest) = tok # ts"
proof (induction tok)
  case Nil
  then show ?case by (cases rest) auto
next
  case (Cons c tok)
  then obtain ts where "split_space (tok @ rest) = tok # ts" by auto
  with Cons.prems show ?case by auto
qed

lemma find_token_leading_spaces:
  "find (\<lambda>candidate. candidate \<noteq> []) (split_space (replicate n SPACE @ s)) =
   find (\<lambda>candidate. candidate \<noteq> []) (split_space s)"
  by (induction n) simp_all

lemma find_first_token:
  assumes "tok \<noteq> []" and "SPACE \<notin> set tok" and "rest = [] \<or> hd rest = SPACE"
  shows "find (\<lambda>candidate. candidate \<noteq> []) (split_space (replicate n SPACE @ tok @ rest)) = Some tok"
proof -
  from split_space_token [OF assms(2,3)] obtain ts where "split_space (tok @ rest) = tok # ts" ..
  with assms(1) show ?thesis
    by (simp add: find_token_leading_spaces)
qed

text \<open>
  C6 (amended). For a text that is some spaces, then a non-empty token without
  spaces, then nothing or a space and anything, \<^verbatim>\<open>prune\<close> with
  \<^verbatim>\<open>keepSpaces\<close> false or absent and \<^verbatim>\<open>asNumber: false\<close> returns the token
  without its degree signs; with any other \<^verbatim>\<open>asNumber\<close> it returns
  \<^verbatim>\<open>Number\<close> of that stripped token.
\<close>

theorem prune_first_token:
  assumes "tok \<noteq> []" and "SPACE \<notin> set tok" and "rest = [] \<or> hd rest = SPACE"
    and "ks \<noteq> Some True"
  shows "prune (Some (replicate n SPACE @ tok @ rest)) \<lparr>keepSpaces = ks, asNumber = Some False\<rparr>
           = JString (filter (\<lambda>c. c \<noteq> DEGREE) tok) \<and>
         (an \<noteq> Some False \<longrightarrow>
            prune (Some (replicate n SPACE @ tok @ rest)) \<lparr>keepSpaces = ks, asNumber = an\<rparr>
              = JNumber (StringToNumber (filter (\<lambda>c. c \<noteq> DEGREE) tok)))"
  using assms(4) find_first_token [OF assms(1-3)]
  by (simp add: prune_def replaceAll_degree_def)

theorem prune_first_token_witness:
  "prune (Some (ustr ''  45'' @ [DEGREE] @ ustr '' left'')) \<lparr>keepSpaces = Some False, asNumber = Some False\<rparr>
     = JString (ustr ''45'') \<and>
   prune (Some (ustr ''  45'' @ [DEGREE] @ ustr '' left'')) \<lparr>keepSpaces = Some False, asNumber = None\<rparr>
     = JNumber (Fin False 45)"
proof -
  have a: "ustr ''45'' @ [DEGREE] \<noteq> []" "SPACE \<notin> set (ustr ''45'' @ [DEGREE])"
    "ustr '' left'' = [] \<or> hd (ustr '' left'') = SPACE" "Some False \<noteq> Some True"
    by (simp_all add: ustr_def SPACE_def DEGREE_def)
  have e: "ustr ''  45'' @ [DEGREE] @ ustr '' left'' = replicate 2 SPACE @ (ustr ''45'' @ [DEGREE]) @ ustr '' left''"
    by (simp add: ustr_def SPACE_def numeral_2_eq_2)
  have f: "filter (\<lambda>c. c \<noteq> DEGREE) (ustr ''45'' @ [DEGREE]) = ustr ''45''"
    by (simp add: ustr_def DEGREE_def)
  have n: "StringToNumber (ustr ''45'') = Fin False 45"
    by (simp add: str_eval num_eval)
  show ?thesis
    using prune_first_token [OF a, of 2 None] unfolding e [symmetric] f n by simp
qed

theorem prune_first_token_counterexample:
  "prune (Some (ustr ''30 rounds'')) \<lparr>keepSpaces = Some False, asNumber = None\<rparr> = JNumber (Fin False 30) \<and>
   prune (Some (ustr ''30 rounds'')) \<lparr>keepSpaces = Some False, asNumber = None\<rparr> \<noteq> JString (ustr ''30'')"
proof -
  have "find (\<lambda>candidate. candidate \<noteq> []) (split_space (ustr ''30 rounds'')) = Some (ustr ''30'')"
    by (simp add: ustr_def SPACE_def)
  then have "prune (Some (ustr ''30 rounds'')) \<lparr>keepSpaces = Some False, asNumber = None\<rparr>
      = JNumber (StringToNumber (ustr ''30''))"
    by (simp add: prune_def replaceAll_degree_def) (simp add: ustr_def DEGREE_def)
  moreover have "StringToNumber (ustr ''30'') = Fin False 30"
    by (simp add: str_eval num_eval)
  ultimately show ?thesis by simp
qed

section \<open>The record after a rule\<close>

text \<open>String literals are equal only when they are the same literal.\<close>

lemma unat_ustr_char: "unat (of_nat (of_char c) :: 16 word) = of_char c"
proof -
  have "(of_char c :: nat) mod 256 = of_char c" by simp
  then have "(of_char c :: nat) < 256"
    by (metis mod_less_divisor zero_less_numeral)
  then have "(of_char c :: nat) < 65536" by linarith
  then have "(of_char c :: nat) mod 65536 = of_char c" by (rule mod_less)
  then show ?thesis
    by (simp add: unat_of_nat)
qed

lemma ustr_eq_iff [simp]: "ustr a = ustr b \<longleftrightarrow> a = b"
proof
  assume "ustr a = ustr b"
  then have "map unat (ustr a) = map unat (ustr b)" by simp
  then have "map (of_char :: char \<Rightarrow> nat) a = map of_char b"
    by (simp add: ustr_def unat_ustr_char o_def)
  then show "a = b"
    by (simp add: inj_map_eq_map inj_of_char)
qed simp

text \<open>What a key holds after an assignment and after each kind of rule.\<close>

lemma getProp_setProp:
  "getProp (setProp obj k v) k' =
     (if k = ustr ''__proto__'' then getProp obj k'
      else if k' = k then Some v else getProp obj k')"
  by (simp add: getProp_def setProp_def update_conv')

lemma getProp_Nil [simp]: "getProp [] k = None"
  by (simp add: getProp_def)

lemma getSpread_cellText:
  "getSpread row col dynamicCol property className weapon weaponData =
     setProp weaponData property
       (prune (cellText weapon className row
                 (if dynamicCol \<and> jsrem row 3 \<noteq> 1 then col - 1 else col)) noOpts)"
  by (simp add: getSpread_def cellText_def)

lemma getProp_getSpread:
  "getProp (getSpread row col dynamicCol property className weapon weaponData) k =
     (if property = ustr ''__proto__'' then getProp weaponData k
      else if k = property
      then Some (prune (cellText weapon className row
                 (if dynamicCol \<and> jsrem row 3 \<noteq> 1 then col - 1 else col)) noOpts)
      else getProp weaponData k)"
  by (simp add: getSpread_cellText getProp_setProp)

lemma getProp_getFssm:
  "property \<noteq> ustr ''__proto__'' \<Longrightarrow> property \<noteq> ustr ''adsStandSpreadInc'' \<Longrightarrow>
   getProp (getFssm row col property className weapon weaponData) k =
     (if k = property
      then Some (JNumber
        (let firstSips = ToNumber (prune (cellText weapon className row
                 (if jsrem row 3 \<noteq> 1 then col - 1 else col)) noOpts);
             sips = ToNumber (readProp weaponData (ustr ''adsStandSpreadInc''))
         in if strictEqZero sips then sips
            else StringToNumber (toFixed0 (jsdiv firstSips sips))))
      else getProp weaponData k)"
  by (simp add: getFssm_def Let_def getProp_setProp getProp_getSpread readProp_def)

lemma getProp_pelletsLoop:
  "property \<noteq> ustr ''__proto__'' \<Longrightarrow>
   getProp (pelletsLoop property labels weaponData) k =
     (if k = property
      then (case find (\<lambda>label. includes_str (textContent label) (ustr ''pellets'')) labels of
              None \<Rightarrow> getProp weaponData k
            | Some label \<Rightarrow> Some (prune (Some (textContent label)) noOpts))
      else getProp weaponData k)"
  by (induction labels) (auto simp add: getProp_setProp)

lemma getProp_pelletsRule:
  "property \<noteq> ustr ''__proto__'' \<Longrightarrow>
   getProp (pelletsRule property className weapon weaponData) k =
     (if k = property
      then (case find (\<lambda>label. includes_str (textContent label) (ustr ''pellets''))
                   (querySelectorAll weapon (ByClass className)) of
              None \<Rightarrow> getProp weaponData k
            | Some label \<Rightarrow> Some (prune (Some (textContent label)) noOpts))
      else getProp weaponData k)"
  by (simp add: pelletsRule_def getAll_def getProp_pelletsLoop)

lemma getProp_recoilLeftRule:
  "property \<noteq> ustr ''__proto__'' \<Longrightarrow>
   getProp (recoilLeftRule property className weapon weaponData) k =
     (if k = property
      then Some (JNumber (abs_num (ToNumber (getValue weapon className noOpts))))
      else getProp weaponData k)"
  by (simp add: recoilLeftRule_def getProp_setProp)

lemma getProp_recoilRightRule:
  "property \<noteq> ustr ''__proto__'' \<Longrightarrow>
   getProp (recoilRightRule property className weapon weaponData) k =
     (if k = property
      then Some (JNumber (abs_num (ToNumber (getValueOfSibling weapon className noOpts))))
      else getProp weaponData k)"
  by (simp add: recoilRightRule_def getProp_setProp)

lemma getProp_recoilFirstShotRule:
  "property \<noteq> ustr ''__proto__'' \<Longrightarrow>
   getProp (recoilFirstShotRule property className weapon weaponData) k =
     (if k = property
      then Some (prune
          (Option.bind (getFirst weapon className) (\<lambda>first.
           Option.bind (item (children first) 1) (\<lambda>cell.
           Some (textContent cell)))) noOpts)
      else getProp weaponData k)"
  by (simp add: recoilFirstShotRule_def getProp_setProp)

lemma getProp_simpleRule:
  "property \<noteq> ustr ''__proto__'' \<Longrightarrow>
   getProp (applyRule weapon (property, className, None) weaponData) k =
     (if k = property \<and> getValue weapon className noOpts \<noteq> JUndefined
      then Some (getValue weapon className noOpts)
      else getProp weaponData k)"
  by (simp add: Let_def getProp_setProp)

lemmas rule_reads =
  getProp_simpleRule getProp_getSpread getProp_getFssm getProp_pelletsRule
  getProp_recoilLeftRule getProp_recoilRightRule getProp_recoilFirstShotRule

text \<open>What some fields hold after the whole rule list has run.\<close>

lemma extractWeapon_unfold:
  "extractWeapon weapon = fold (applyRule weapon) rules []"
  by (simp add: extractWeapon_def)

lemma field_adsStandSpreadInc:
  "getProp (extractWeapon weapon) (ustr ''adsStandSpreadInc'') =
     Some (prune (cellText weapon (ustr ''spreadIncDecTable'') 2 1) noOpts)"
  by (simp add: extractWeapon_def rules_def rule_reads del: applyRule.simps(2))

lemma field_hipStandSpreadInc:
  "getProp (extractWeapon weapon) (ustr ''hipStandSpreadInc'') =
     Some (prune (cellText weapon (ustr ''spreadIncDecTable'') 2 2) noOpts)"
  by (simp add: extractWeapon_def rules_def rule_reads del: applyRule.simps(2))

lemma field_adsStandFirstSpreadMul:
  "getProp (extractWeapon weapon) (ustr ''adsStandFirstSpreadMul'') =
     Some (JNumber
        (let firstSips = ToNumber (prune (cellText weapon (ustr ''spreadIncDecTable'') 1 1) noOpts);
             sips = ToNumber (prune (cellText weapon (ustr ''spreadIncDecTable'') 2 1) noOpts)
         in if strictEqZero sips then sips
            else StringToNumber (toFixed0 (jsdiv firstSips sips))))"
  by (simp add: extractWeapon_def rules_def rule_reads readProp_def jsrem_def del: applyRule.simps(2))

lemma field_hipStandFirstSpreadMul:
  "getProp (extractWeapon weapon) (ustr ''hipStandFirstSpreadMul'') =
     Some (JNumber
        (let firstSips = ToNumber (prune (cellText weapon (ustr ''spreadIncDecTable'') 1 2) noOpts);
             sips = ToNumber (prune (cellText weapon (ustr ''spreadIncDecTable'') 2 1) noOpts)
         in if strictEqZero sips then sips
            else StringToNumber (toFixed0 (jsdiv firstSips sips))))"
  by (simp add: extractWeapon_def rules_def rule_reads readProp_def jsrem_def del: applyRule.simps(2))

lemma field_pellets:
  "getProp (extractWeapon weapon) (ustr ''pellets'') =
     (case find (\<lambda>label. includes_str (textContent label) (ustr ''pellets''))
             (querySelectorAll weapon (ByClass (ustr ''chartMinMaxLabel''))) of
        None \<Rightarrow> None
      | Some label \<Rightarrow> Some (prune (Some (textContent label)) noOpts))"
  by (simp add: extractWeapon_def rules_def rule_reads del: applyRule.simps(2) split: option.splits)

section \<open>Evaluating selectors\<close>

text \<open>
  \<^verbatim>\<open>querySelectorAll\<close> follows the tree: the matching children, each followed
  by the matches below it.
\<close>

lemma querySelectorAll_list:
  "map fst (filter (\<lambda>(n, sib). matches sel n) (descendantsOfList ns)) =
   concat (map (\<lambda>k. (if matches sel k then [k] else []) @ querySelectorAll k sel) ns)"
  by (induction ns) (simp_all add: querySelectorAll_def querySelectorAllSib_def)

lemma querySelectorAll_Element:
  "querySelectorAll (Element tag classes kids) sel =
   concat (map (\<lambda>k. (if matches sel k then [k] else []) @ querySelectorAll k sel) kids)"
  using querySelectorAll_list [of sel kids]
  by (simp add: querySelectorAll_def querySelectorAllSib_def)

lemma querySelectorAll_leaf:
  "querySelectorAll (Text d) sel = []" "querySelectorAll (Comment d) sel = []"
  by (simp_all add: querySelectorAll_def querySelectorAllSib_def)

lemmas dom_eval =
  cellText_def getFirst_def getAll_def getValue_def querySelector_def
  querySelectorAll_Element querySelectorAll_leaf item_def children_def
  labelled_def tableCell_def tableRow_def spreadTable_def spreadIncDecTable_def
lemmas prune_eval = prune_def noOpts_def replaceAll_degree_def SPACE_def DEGREE_def

section \<open>Properties of the extraction rules\<close>

text \<open>
  C4. With the column adjustment enabled, \<^verbatim>\<open>getSpread\<close> stores under the
  property what \<^verbatim>\<open>prune\<close> gives for the cell of the requested row at the
  requested column when the row number leaves remainder 1 modulo 3, and at the
  column before it for every other row. Row 1 with column 2 reads column 2;
  row 2 with column 2 reads column 1.
\<close>

theorem getSpread_dynamicCol:
  assumes "0 \<le> row"
  shows "getSpread row col True property className weapon weaponData =
           setProp weaponData property
             (prune (cellText weapon className row (if row mod 3 = 1 then col else col - 1))
                noOpts) \<and>
         getSpread 1 2 True property className weapon weaponData =
           setProp weaponData property (prune (cellText weapon className 1 2) noOpts) \<and>
         getSpread 2 2 True property className weapon weaponData =
           setProp weaponData property (prune (cellText weapon className 2 1) noOpts)"
proof -
  from assms have "jsrem row 3 = row mod 3"
    by (cases "row = 0") (simp_all add: jsrem_def)
  then show ?thesis
    by (simp add: getSpread_cellText jsrem_def)
qed

lemma garand_spread_cells:
  "cellText garand (ustr ''spreadTable'') 1 1 = Some (ustr ''11'')"
  "cellText garand (ustr ''spreadTable'') 1 2 = Some (ustr ''12'')"
  "cellText garand (ustr ''spreadTable'') 2 0 = Some (ustr ''21'')"
  "cellText garand (ustr ''spreadTable'') 2 1 = Some (ustr ''22'')"
  "cellText garand (ustr ''spreadTable'') 4 1 = Some (ustr ''41'')"
  "cellText garand (ustr ''spreadTable'') 5 0 = Some (ustr ''51'')"
  by (simp_all add: garand_def dom_eval)

lemma prune_spread_digits:
  "prune (Some (ustr ''11'')) noOpts = JNumber (Fin False 11)"
  "prune (Some (ustr ''12'')) noOpts = JNumber (Fin False 12)"
  "prune (Some (ustr ''21'')) noOpts = JNumber (Fin False 21)"
  "prune (Some (ustr ''22'')) noOpts = JNumber (Fin False 22)"
  "prune (Some (ustr ''41'')) noOpts = JNumber (Fin False 41)"
  "prune (Some (ustr ''51'')) noOpts = JNumber (Fin False 51)"
  by (simp_all add: prune_eval str_eval num_eval)

theorem getSpread_dynamicCol_witness:
  "readProp (getSpread 1 1 True (ustr ''adsStandBaseMin'') (ustr ''spreadTable'') garand [])
     (ustr ''adsStandBaseMin'') = JNumber (Fin False 11) \<and>
   readProp (getSpread 1 2 True (ustr ''adsStandBaseMax'') (ustr ''spreadTable'') garand [])
     (ustr ''adsStandBaseMax'') = JNumber (Fin False 12) \<and>
   readProp (getSpread 2 1 True (ustr ''adsCrouchBaseMin'') (ustr ''spreadTable'') garand [])
     (ustr ''adsCrouchBaseMin'') = JNumber (Fin False 21) \<and>
   readProp (getSpread 2 2 True (ustr ''adsCrouchBaseMax'') (ustr ''spreadTable'') garand [])
     (ustr ''adsCrouchBaseMax'') = JNumber (Fin False 22) \<and>
   readProp (getSpread 4 1 True (ustr ''hipStandBaseMin'') (ustr ''spreadTable'') garand [])
     (ustr ''hipStandBaseMin'') = JNumber (Fin False 41) \<and>
   readProp (getSpread 5 1 True (ustr ''hipCrouchBaseMin'') (ustr ''spreadTable'') garand [])
     (ustr ''hipCrouchBaseMin'') = JNumber (Fin False 51)"
proof -
  have r: "(0 :: int) \<le> 1" "(0 :: int) \<le> 2" "(0 :: int) \<le> 4" "(0 :: int) \<le> 5"
    by simp_all
  note t = getSpread_dynamicCol [THEN conjunct1]
  have a: "getSpread 1 1 True (ustr ''adsStandBaseMin'') (ustr ''spreadTable'') garand [] =
      setProp [] (ustr ''adsStandBaseMin'') (prune (cellText garand (ustr ''spreadTable'') 1 1) noOpts)"
    using t [OF r(1), of 1] by simp
  have b: "getSpread 1 2 True (ustr ''adsStandBaseMax'') (ustr ''spreadTable'') garand [] =
      setProp [] (ustr ''adsStandBaseMax'') (prune (cellText garand (ustr ''spreadTable'') 1 2) noOpts)"
    using t [OF r(1), of 2] by simp
  have c: "getSpread 2 1 True (ustr ''adsCrouchBaseMin'') (ustr ''spreadTable'') garand [] =
      setProp [] (ustr ''adsCrouchBaseMin'') (prune (cellText garand (ustr ''spreadTable'') 2 0) noOpts)"
    using t [OF r(2), of 1] by simp
  have d: "getSpread 2 2 True (ustr ''adsCrouchBaseMax'') (ustr ''spreadTable'') garand [] =
      setProp [] (ustr ''adsCrouchBaseMax'') (prune (cellText garand (ustr ''spreadTable'') 2 1) noOpts)"
    using t [OF r(2), of 2] by simp
  have e: "getSpread 4 1 True (ustr ''hipStandBaseMin'') (ustr ''spreadTable'') garand [] =
      setProp [] (ustr ''hipStandBaseMin'') (prune (cellText garand (ustr ''spreadTable'') 4 1) noOpts)"
    using t [OF r(3), of 1] by simp
  have f: "getSpread 5 1 True (ustr ''hipCrouchBaseMin'') (ustr ''spreadTable'') garand [] =
      setProp [] (ustr ''hipCrouchBaseMin'') (prune (cellText garand (ustr ''spreadTable'') 5 0) noOpts)"
    using t [OF r(4), of 1] by simp
  show ?thesis
    unfolding a b c d e f
    by (simp add: readProp_def getProp_setProp garand_spread_cells prune_spread_digits)
qed

text \<open>\<^verbatim>\<open>includes\<close> finds the needle as a contiguous part of the text.\<close>

lemma includes_str_iff: "includes_str hay needle \<longleftrightarrow> (\<exists>p s. hay = p @ needle @ s)"
proof (induction hay)
  case Nil
  show ?case by simp
next
  case (Cons c cs)
  show ?case
  proof
    assume "includes_str (c # cs) needle"
    then consider "take (length needle) (c # cs) = needle" | "includes_str cs needle" by auto
    then show "\<exists>p s. c # cs = p @ needle @ s"
    proof cases
      case 1
      then have "c # cs = [] @ needle @ drop (length needle) (c # cs)"
        by (metis append_Nil append_take_drop_id)
      then show ?thesis by blast
    next
      case 2
      with Cons.IH obtain p s where "cs = p @ needle @ s" by blast
      then have "c # cs = (c # p) @ needle @ s" by simp
      then show ?thesis by blast
    qed
  next
    assume "\<exists>p s. c # cs = p @ needle @ s"
    then obtain p s where e: "c # cs = p @ needle @ s" by blast
    show "includes_str (c # cs) needle"
    proof (cases p)
      case Nil
      with e have "take (length needle) (c # cs) = needle" by simp
      then show ?thesis by simp
    next
      case (Cons a p')
      with e have "cs = p' @ needle @ s" by simp
      with Cons.IH have "includes_str cs needle" by blast
      then show ?thesis by simp
    qed
  qed
qed

lemma prune_defined: "prune (Some s) opts \<noteq> JUndefined"
  by (simp add: prune_def Let_def)

lemma prune_noOpts:
  "prune (Some s) noOpts =
     JNumber (StringToNumber (filter (\<lambda>c. c \<noteq> DEGREE)
       (case find (\<lambda>candidate. candidate \<noteq> []) (split_space s) of
          Some candidate \<Rightarrow> candidate | None \<Rightarrow> s)))"
  by (simp add: prune_def noOpts_def replaceAll_degree_def Let_def)

lemma getValue_undefined_iff:
  "getValue weapon className opts = JUndefined \<longleftrightarrow>
   querySelector weapon (ByClass className) = None"
  by (cases "querySelector weapon (ByClass className)")
     (simp_all add: getValue_def prune_defined, simp add: prune_def)

text \<open>
  C7 (amended). The \<^verbatim>\<open>pellets\<close> field is set from the first element of class
  \<^verbatim>\<open>chartMinMaxLabel\<close> whose text contains \<open>pellets\<close>: it holds the number
  that \<^verbatim>\<open>Number\<close> gives for the first non-empty token of that text (the
  whole text if there is none) without its degree signs, which is what
  \<^verbatim>\<open>prune\<close> returns with its default options. With no such label the key
  is absent from the record.
\<close>

theorem pellets_field:
  "getProp (extractWeapon weapon) (ustr ''pellets'') =
     (case find (\<lambda>label. includes_str (textContent label) (ustr ''pellets''))
             (querySelectorAll weapon (ByClass (ustr ''chartMinMaxLabel''))) of
        None \<Rightarrow> None
      | Some label \<Rightarrow>
          Some (JNumber (StringToNumber (filter (\<lambda>c. c \<noteq> DEGREE)
            (case find (\<lambda>candidate. candidate \<noteq> []) (split_space (textContent label)) of
               Some candidate \<Rightarrow> candidate
             | None \<Rightarrow> textContent label)))))"
  by (simp add: field_pellets prune_noOpts split: option.splits)

lemma garand_labels:
  "querySelectorAll garand (ByClass (ustr ''chartMinMaxLabel'')) =
     [labelled ''chartMinMaxLabel'' ''max'', labelled ''chartMinMaxLabel'' ''12 pellets'']"
  by (simp add: garand_def dom_eval)

lemma garand_label_texts:
  "textContent (labelled ''chartMinMaxLabel'' ''max'') = ustr ''max''"
  "textContent (labelled ''chartMinMaxLabel'' ''12 pellets'') = ustr ''12 pellets''"
  by (simp_all add: labelled_def)

lemma garand_label_includes:
  "\<not> includes_str (ustr ''max'') (ustr ''pellets'')"
  "includes_str (ustr ''12 pellets'') (ustr ''pellets'')"
  by (simp_all add: ustr_def)

lemma first_token_12_pellets:
  "find (\<lambda>candidate. candidate \<noteq> []) (split_space (ustr ''12 pellets'')) = Some (ustr ''12'')"
  by (simp add: ustr_def SPACE_def)

lemma StringToNumber_12: "StringToNumber (ustr ''12'') = Fin False 12"
  by (simp add: str_eval num_eval)

lemma filter_degree_12: "filter (\<lambda>c. c \<noteq> DEGREE) (ustr ''12'') = ustr ''12''"
  by (simp add: ustr_def DEGREE_def)

theorem pellets_field_witness:
  "getProp (extractWeapon garand) (ustr ''pellets'') = Some (JNumber (Fin False 12)) \<and>
   getProp (extractWeapon bareWeapon) (ustr ''pellets'') = None"
proof -
  have b: "querySelectorAll bareWeapon (ByClass (ustr ''chartMinMaxLabel'')) = []"
    by (simp add: bareWeapon_def dom_eval)
  show ?thesis
    using pellets_field [of garand] pellets_field [of bareWeapon]
    by (simp add: b garand_labels garand_label_texts garand_label_includes
        first_token_12_pellets StringToNumber_12 filter_degree_12)
qed

theorem pellets_field_counterexample:
  "find (\<lambda>label. includes_str (textContent label) (ustr ''pellets''))
     (querySelectorAll garand (ByClass (ustr ''chartMinMaxLabel'')))
     = Some (labelled ''chartMinMaxLabel'' ''12 pellets'') \<and>
   prune (Some (textContent (labelled ''chartMinMaxLabel'' ''12 pellets'')))
     \<lparr>keepSpaces = None, asNumber = Some False\<rparr> = JString (ustr ''12'') \<and>
   getProp (extractWeapon garand) (ustr ''pellets'') \<noteq> Some (JString (ustr ''12'')) \<and>
   getProp (extractWeapon garand) (ustr ''pellets'') = Some (JNumber (Fin False 12))"
  by (simp add: field_pellets garand_labels garand_label_texts garand_label_includes
      prune_noOpts first_token_12_pellets StringToNumber_12 filter_degree_12)
     (simp add: prune_def replaceAll_degree_def first_token_12_pellets filter_degree_12)

text \<open>
  Every rule writes its own key only, and no two rules share a key: what a key
  holds in the end is what its rule stored on a record that did not have it.
\<close>

lemma rules_distinct: "distinct (map fst rules)"
  by (simp add: rules_def)

lemma rules_not_proto: "\<forall>r \<in> set rules. fst r \<noteq> ustr ''__proto__''"
  by (simp add: rules_def)

lemma rules_framed:
  "\<forall>r \<in> set rules. \<forall>k. k \<noteq> fst r \<longrightarrow>
     getProp (applyRule weapon r weaponData) k = getProp weaponData k"
  by (simp add: rules_def rule_reads del: applyRule.simps(2))

lemma fold_frame:
  "set rs \<subseteq> set rules \<Longrightarrow> k \<notin> fst ` set rs \<Longrightarrow>
   getProp (fold (applyRule weapon) rs weaponData) k = getProp weaponData k"
proof (induction rs arbitrary: weaponData)
  case Nil
  show ?case by simp
next
  case (Cons r rs)
  from Cons.prems have "r \<in> set rules" and "k \<noteq> fst r" by auto
  with rules_framed have "getProp (applyRule weapon r weaponData) k = getProp weaponData k"
    by blast
  with Cons show ?case by simp
qed

lemma extractWeapon_at_rule:
  assumes "r \<in> set rules"
  shows "\<exists>weaponData. getProp weaponData (fst r) = None \<and>
           getProp (extractWeapon weapon) (fst r) = getProp (applyRule weapon r weaponData) (fst r)"
proof -
  from assms obtain pre post where s: "rules = pre @ r # post"
    by (meson split_list)
  from rules_distinct have "distinct (map fst (pre @ r # post))"
    by (simp only: s)
  then have d: "fst r \<notin> fst ` set pre" "fst r \<notin> fst ` set post"
    by auto
  have "set rules = set pre \<union> insert r (set post)"
    by (simp only: s set_append list.set)
  then have sub: "set pre \<subseteq> set rules" "set post \<subseteq> set rules"
    by auto
  let ?wd = "fold (applyRule weapon) pre []"
  have "getProp ?wd (fst r) = None"
    using fold_frame [OF sub(1) d(1)] by simp
  moreover have "getProp (extractWeapon weapon) (fst r) = getProp (applyRule weapon r ?wd) (fst r)"
    using fold_frame [OF sub(2) d(2)] by (simp add: extractWeapon_def s)
  ultimately show ?thesis by blast
qed

lemma custom_rules_assign:
  "\<forall>(property, className, customBehavior) \<in> set rules.
     customBehavior \<noteq> None \<longrightarrow> property \<noteq> ustr ''pellets'' \<longrightarrow>
     getProp (applyRule weapon (property, className, customBehavior) weaponData) property \<noteq> None"
  by (simp add: rules_def rule_reads del: applyRule.simps(2))

text \<open>
  C2 (amended). For every weapon and every rule without a custom extractor, if
  no element of the rule's class is in the weapon's subtree, the record has no
  key for that field; the \<^verbatim>\<open>pellets\<close> rule likewise leaves its key out when
  no label contains \<open>pellets\<close>. Every other rule with a custom extractor
  assigns its key whatever it finds.
\<close>

theorem absent_field_omitted:
  "(\<forall>(property, className, customBehavior) \<in> set rules.
      customBehavior = None \<longrightarrow>
      querySelector weapon (ByClass className) = None \<longrightarrow>
      getProp (extractWeapon weapon) property = None) \<and>
   (find (\<lambda>label. includes_str (textContent label) (ustr ''pellets''))
      (querySelectorAll weapon (ByClass (ustr ''chartMinMaxLabel''))) = None \<longrightarrow>
    getProp (extractWeapon weapon) (ustr ''pellets'') = None) \<and>
   (\<forall>(property, className, customBehavior) \<in> set rules.
      customBehavior \<noteq> None \<longrightarrow> property \<noteq> ustr ''pellets'' \<longrightarrow>
      getProp (extractWeapon weapon) property \<noteq> None)"
proof (intro conjI)
  show "\<forall>(property, className, customBehavior) \<in> set rules.
      customBehavior = None \<longrightarrow>
      querySelector weapon (ByClass className) = None \<longrightarrow>
      getProp (extractWeapon weapon) property = None"
  proof (clarify)
    fix property className
    assume r: "(property, className, None) \<in> set rules"
      and q: "querySelector weapon (ByClass className) = None"
    from extractWeapon_at_rule [OF r, of weapon] obtain weaponData where
      w: "getProp weaponData property = None"
         "getProp (extractWeapon weapon) property =
            getProp (applyRule weapon (property, className, None) weaponData) property"
      by auto
    from q have "getValue weapon className noOpts = JUndefined"
      by (simp add: getValue_undefined_iff)
    with w show "getProp (extractWeapon weapon) property = None"
      by simp
  qed
  show "find (\<lambda>label. includes_str (textContent label) (ustr ''pellets''))
      (querySelectorAll weapon (ByClass (ustr ''chartMinMaxLabel''))) = None \<longrightarrow>
    getProp (extractWeapon weapon) (ustr ''pellets'') = None"
    by (simp add: field_pellets)
  show "\<forall>(property, className, customBehavior) \<in> set rules.
      customBehavior \<noteq> None \<longrightarrow> property \<noteq> ustr ''pellets'' \<longrightarrow>
      getProp (extractWeapon weapon) property \<noteq> None"
  proof (intro ballI)
    fix r :: rule
    assume r: "r \<in> set rules"
    obtain property className customBehavior where e: "r = (property, className, customBehavior)"
      by (cases r)
    from extractWeapon_at_rule [OF r, of weapon] obtain weaponData where
      w: "getProp (extractWeapon weapon) property =
            getProp (applyRule weapon (property, className, customBehavior) weaponData) property"
      by (auto simp: e)
    from custom_rules_assign [of weapon weaponData] r
    have "customBehavior \<noteq> None \<longrightarrow> property \<noteq> ustr ''pellets'' \<longrightarrow>
      getProp (applyRule weapon (property, className, customBehavior) weaponData) property \<noteq> None"
      unfolding e by blast
    with w show "case r of (property, className, customBehavior) \<Rightarrow>
      customBehavior \<noteq> None \<longrightarrow> property \<noteq> ustr ''pellets'' \<longrightarrow>
      getProp (extractWeapon weapon) property \<noteq> None"
      by (simp add: e)
  qed
qed

lemma bareWeapon_absent:
  "querySelector bareWeapon (ByClass (ustr ''lblMag'')) = None"
  "querySelector bareWeapon (ByClass (ustr ''spreadTable'')) = None"
  "querySelector bareWeapon (ByClass (ustr ''recoilHorValue'')) = None"
  "querySelectorAll bareWeapon (ByClass (ustr ''chartMinMaxLabel'')) = []"
  by (simp_all add: bareWeapon_def dom_eval)

theorem absent_field_omitted_witness:
  "(ustr ''ammoCapacity'', ustr ''lblMag'', None) \<in> set rules \<and>
   querySelector bareWeapon (ByClass (ustr ''lblMag'')) = None \<and>
   getProp (extractWeapon bareWeapon) (ustr ''ammoCapacity'') = None \<and>
   find (\<lambda>label. includes_str (textContent label) (ustr ''pellets''))
      (querySelectorAll bareWeapon (ByClass (ustr ''chartMinMaxLabel''))) = None \<and>
   getProp (extractWeapon bareWeapon) (ustr ''pellets'') = None \<and>
   (ustr ''adsStandBaseMin'', ustr ''spreadTable'', Some (getSpread 1 1 True)) \<in> set rules \<and>
   getProp (extractWeapon bareWeapon) (ustr ''adsStandBaseMin'') \<noteq> None"
proof -
  have r1: "(ustr ''ammoCapacity'', ustr ''lblMag'', None) \<in> set rules"
    by (simp add: rules_def)
  have r2: "(ustr ''adsStandBaseMin'', ustr ''spreadTable'', Some (getSpread 1 1 True)) \<in> set rules"
    by (simp add: rules_def)
  note t = absent_field_omitted [of bareWeapon]
  from t r1 have a: "querySelector bareWeapon (ByClass (ustr ''lblMag'')) = None \<longrightarrow>
      getProp (extractWeapon bareWeapon) (ustr ''ammoCapacity'') = None"
    by blast
  from t have b: "find (\<lambda>label. includes_str (textContent label) (ustr ''pellets''))
      (querySelectorAll bareWeapon (ByClass (ustr ''chartMinMaxLabel''))) = None \<longrightarrow>
      getProp (extractWeapon bareWeapon) (ustr ''pellets'') = None"
    by blast
  from t r2 have c: "ustr ''adsStandBaseMin'' \<noteq> ustr ''pellets'' \<longrightarrow>
      getProp (extractWeapon bareWeapon) (ustr ''adsStandBaseMin'') \<noteq> None"
    by blast
  show ?thesis
    using a b c r1 r2 by (simp add: bareWeapon_absent)
qed

lemma field_adsStandBaseMin:
  "getProp (extractWeapon weapon) (ustr ''adsStandBaseMin'') =
     Some (prune (cellText weapon (ustr ''spreadTable'') 1 1) noOpts)"
  by (simp add: extractWeapon_def rules_def rule_reads jsrem_def del: applyRule.simps(2))

lemma field_recoilLeft:
  "getProp (extractWeapon weapon) (ustr ''recoilLeft'') =
     Some (JNumber (abs_num (ToNumber (getValue weapon (ustr ''recoilHorValue'') noOpts))))"
  by (simp add: extractWeapon_def rules_def rule_reads del: applyRule.simps(2))

theorem absent_field_omitted_counterexample:
  "querySelector bareWeapon (ByClass (ustr ''spreadTable'')) = None \<and>
   getProp (extractWeapon bareWeapon) (ustr ''adsStandBaseMin'') = Some JUndefined \<and>
   querySelector bareWeapon (ByClass (ustr ''recoilHorValue'')) = None \<and>
   getProp (extractWeapon bareWeapon) (ustr ''recoilLeft'') = Some (JNumber NaN)"
proof -
  have "cellText bareWeapon (ustr ''spreadTable'') 1 1 = None"
    by (simp add: bareWeapon_def dom_eval)
  moreover have "getValue bareWeapon (ustr ''recoilHorValue'') noOpts = JUndefined"
    by (simp add: getValue_undefined_iff bareWeapon_absent)
  ultimately show ?thesis
    by (simp add: field_adsStandBaseMin field_recoilLeft bareWeapon_absent prune_def)
qed

text \<open>
  Reading back what \<^verbatim>\<open>toFixed(0)\<close> writes: the digits of a non-negative
  integer parse to that integer, an integer below \<open>2\<^sup>5\<^sup>3\<close> is a binary64 value,
  so for a magnitude below \<open>2\<^sup>5\<^sup>3\<close> the number read back is the magnitude
  rounded to the nearest integer, halves upwards, with the sign kept.
\<close>

lemma digitChar_cases:
  assumes "0 \<le> d" and "d < 10"
  shows "digitValue (digitChar d) = d \<and> \<not> isStrWhiteSpaceChar (digitChar d) \<and>
         digitChar d \<noteq> 0x2B \<and> digitChar d \<noteq> 0x2D \<and> digitChar d \<noteq> 0x49 \<and>
         digitChar d \<noteq> 0x62 \<and> digitChar d \<noteq> 0x42 \<and> digitChar d \<noteq> 0x6F \<and>
         digitChar d \<noteq> 0x4F \<and> digitChar d \<noteq> 0x78 \<and> digitChar d \<noteq> 0x58"
proof -
  from assms have "d = 0 \<or> d = 1 \<or> d = 2 \<or> d = 3 \<or> d = 4 \<or> d = 5 \<or> d = 6 \<or> d = 7 \<or> d = 8 \<or> d = 9"
    by arith
  then show ?thesis
    by (elim disjE) (simp_all add: digitChar_def digitValue_def isStrWhiteSpaceChar_def)
qed

lemma decimal_digit_facts:
  assumes "c \<in> digitChar ` {0..9}"
  shows "isDigit 10 c" and "\<not> isStrWhiteSpaceChar c"
    and "c \<noteq> 0x2B" and "c \<noteq> 0x2D" and "c \<noteq> 0x49"
    and "c \<noteq> 0x62" and "c \<noteq> 0x42" and "c \<noteq> 0x6F" and "c \<noteq> 0x4F" and "c \<noteq> 0x78" and "c \<noteq> 0x58"
proof -
  from assms obtain d where d: "0 \<le> d" "d < 10" "c = digitChar d" by auto
  note f = digitChar_cases [OF d(1,2)]
  from f d show "isDigit 10 c" by (simp add: isDigit_def)
  from f d show "\<not> isStrWhiteSpaceChar c" by simp
  from f d show "c \<noteq> 0x2B" "c \<noteq> 0x2D" "c \<noteq> 0x49"
    "c \<noteq> 0x62" "c \<noteq> 0x42" "c \<noteq> 0x6F" "c \<noteq> 0x4F" "c \<noteq> 0x78" "c \<noteq> 0x58"
    by simp_all
qed

lemma digitsOf_digits: "0 \<le> n \<Longrightarrow> set (digitsOf n) \<subseteq> digitChar ` {0..9} \<and> digitsOf n \<noteq> []"
proof (induction n rule: digitsOf.induct)
  case (1 n)
  show ?case
  proof (cases "n < 10")
    case True
    with "1.prems" show ?thesis
      by (subst digitsOf.simps, subst digitsOf.simps) simp
  next
    case False
    then have "0 \<le> n div 10" by simp
    with "1.IH" False have ih: "set (digitsOf (n div 10)) \<subseteq> digitChar ` {0..9}" by simp
    have "n mod 10 \<in> {0..9}" by simp
    then have "digitChar (n mod 10) \<in> digitChar ` {0..9}" by (rule imageI)
    with ih False show ?thesis
      by (subst digitsOf.simps, subst digitsOf.simps) simp
  qed
qed

lemma digitsValue_append:
  "digitsValue b (xs @ [c]) = digitsValue b xs * b + digitValue c"
  by (simp add: digitsValue_def)

lemma digitsValue_digitsOf: "0 \<le> n \<Longrightarrow> digitsValue 10 (digitsOf n) = n"
proof (induction n rule: digitsOf.induct)
  case (1 n)
  show ?case
  proof (cases "n < 10")
    case True
    with "1.prems" show ?thesis
      by (subst digitsOf.simps) (simp add: digitsValue_def digitChar_cases)
  next
    case False
    with "1.IH" have "digitsValue 10 (digitsOf (n div 10)) = n div 10" by simp
    moreover have "digitValue (digitChar (n mod 10)) = n mod 10"
      by (simp add: digitChar_cases)
    ultimately show ?thesis
      using False by (subst digitsOf.simps) (simp add: digitsValue_append)
  qed
qed

lemma trimWhiteSpace_id:
  assumes "s \<noteq> []" and "\<not> isStrWhiteSpaceChar (hd s)" and "\<not> isStrWhiteSpaceChar (last s)"
  shows "trimWhiteSpace s = s"
proof -
  from assms(1,2) have a: "dropWhile isStrWhiteSpaceChar s = s"
    by (cases s) simp_all
  from assms(1,3) have "dropWhile isStrWhiteSpaceChar (rev s) = rev s"
    by (cases "rev s") (simp_all add: hd_rev [symmetric])
  with a show ?thesis
    by (simp add: trimWhiteSpace_def)
qed

lemma parseUnsignedDecimal_digits:
  assumes "set ds \<subseteq> digitChar ` {0..9}" and "ds \<noteq> []"
  shows "parseUnsignedDecimal ds = Some (of_int (digitsValue 10 ds))"
proof -
  from assms(1) have all: "\<forall>c \<in> set ds. isDigit 10 c"
    using decimal_digit_facts(1) by blast
  then have t: "takeWhile (isDigit 10) ds = ds" and d: "dropWhile (isDigit 10) ds = []"
    by (simp_all add: takeWhile_eq_all_conv)
  show ?thesis
    using assms(2) by (simp add: parseUnsignedDecimal_def t d parseExponent_def pow10_def)
qed

lemma nonDecimalBase_digits:
  assumes "set ds \<subseteq> digitChar ` {0..9}"
  shows "nonDecimalBase ds = None" and "nonDecimalBase (0x2D # ds) = None"
proof -
  show "nonDecimalBase (0x2D # ds) = None"
    by (simp add: nonDecimalBase_def split: list.splits)
  show "nonDecimalBase ds = None"
  proof (cases ds)
    case Nil
    then show ?thesis by (simp add: nonDecimalBase_def)
  next
    case (Cons z r)
    show ?thesis
    proof (cases r)
      case Nil
      with Cons show ?thesis by (simp add: nonDecimalBase_def)
    next
      case (Cons p r')
      with \<open>ds = z # r\<close> assms have "p \<in> digitChar ` {0..9}" by simp
      from decimal_digit_facts(6-11) [OF this] Cons \<open>ds = z # r\<close> show ?thesis
        by (simp add: nonDecimalBase_def)
    qed
  qed
qed

lemma StringToNumber_digitsOf:
  assumes "0 \<le> n"
  shows "StringToNumber (digitsOf n) = fl False (of_int n)"
    and "StringToNumber (0x2D # digitsOf n) = fl True (of_int n)"
proof -
  note d = digitsOf_digits [OF assms]
  from d have ne: "digitsOf n \<noteq> []" and sub: "set (digitsOf n) \<subseteq> digitChar ` {0..9}"
    by simp_all
  from ne sub have h: "hd (digitsOf n) \<in> digitChar ` {0..9}" and l: "last (digitsOf n) \<in> digitChar ` {0..9}"
    by (auto simp: subset_iff)
  have t1: "trimWhiteSpace (digitsOf n) = digitsOf n"
    using ne decimal_digit_facts(2) [OF h] decimal_digit_facts(2) [OF l]
    by (rule trimWhiteSpace_id)
  have t2: "trimWhiteSpace (0x2D # digitsOf n) = 0x2D # digitsOf n"
    using ne decimal_digit_facts(2) [OF l]
    by (intro trimWhiteSpace_id) (simp_all add: isStrWhiteSpaceChar_def)
  have inf: "digitsOf n \<noteq> ustr ''Infinity''"
    using decimal_digit_facts(5) [OF h] ne by (cases "digitsOf n") (auto simp: ustr_def)
  note p = parseUnsignedDecimal_digits [OF sub ne]
  show "StringToNumber (digitsOf n) = fl False (of_int n)"
    using ne inf decimal_digit_facts(3,4) [OF h]
    by (simp add: StringToNumber_def t1 nonDecimalBase_digits [OF sub] p
        digitsValue_digitsOf [OF assms])
  show "StringToNumber (0x2D # digitsOf n) = fl True (of_int n)"
    using ne inf
    by (simp add: StringToNumber_def t2 nonDecimalBase_digits [OF sub] p
        digitsValue_digitsOf [OF assms])
qed


lemma ndigits_nonneg: "0 \<le> ndigits b n"
  by (induction b n rule: ndigits.induct) (subst ndigits.simps, simp)

lemma ndigits_le: "0 \<le> n \<Longrightarrow> n < 2 ^ k \<Longrightarrow> ndigits 2 n \<le> int k"
proof (induction k arbitrary: n)
  case 0
  then have "n = 0" by simp
  then show ?case by (simp add: ndigits.simps)
next
  case (Suc k)
  show ?case
  proof (cases "n \<le> 0")
    case True
    then show ?thesis by (simp add: ndigits.simps)
  next
    case False
    from Suc.prems have "0 \<le> n div 2" and "n div 2 < 2 ^ k" by auto
    then have "ndigits 2 (n div 2) \<le> int k" by (rule Suc.IH)
    with False show ?thesis by (subst ndigits.simps) simp
  qed
qed

lemma roundHalfEven_of_int: "roundHalfEven (of_int k) = k"
  by (simp add: roundHalfEven_def)

lemma fl_of_int:
  assumes "0 \<le> n" and "n < 2 ^ 53"
  shows "fl s (of_int n) = Fin s (of_int n)"
proof (cases "n = 0")
  case True
  then show ?thesis by (simp add: fl_def)
next
  case False
  with assms have pos: "0 < n" by simp
  define e where "e = ilog 2 (of_int n)"
  have "e = ndigits 2 n - 1"
    using pos by (simp add: e_def ilog_def)
  moreover have "ndigits 2 n \<le> 53"
    using ndigits_le [OF assms(1), of 53] assms(2) by simp
  moreover have "1 \<le> ndigits 2 n"
    using pos ndigits_nonneg [of 2 "n div 2"] by (subst ndigits.simps) simp
  ultimately have e: "0 \<le> e" "e \<le> 52" by simp_all
  define j where "j = nat (52 - e)"
  have ulp: "pow2 (e - 52) = 1 / 2 ^ j"
  proof (cases "e = 52")
    case True
    then show ?thesis by (simp add: pow2_def j_def)
  next
    case False
    with e have "e - 52 < 0" by simp
    then show ?thesis by (simp add: pow2_def j_def)
  qed
  have q: "roundHalfEven (rat_of_int n * 2 ^ j) = n * 2 ^ j"
    using roundHalfEven_of_int [of "n * 2 ^ j"] by simp
  have r: "rat_of_int (n * 2 ^ j) / 2 ^ j = rat_of_int n"
    by simp
  have "(of_int n :: rat) < 2 ^ 53"
    using assms(2) by (metis of_int_less_numeral_power_cancel_iff)
  also have "\<dots> < 2 ^ 1024" by simp
  finally have big: "\<not> pow2 1024 \<le> (of_int n :: rat)"
    by (simp add: pow2_def)
  have m: "max e (- 1022) = e"
    using e by simp
  show ?thesis
    using pos big
    by (simp add: fl_def Let_def e_def [symmetric] m ulp q r del: of_int_mult of_int_power)
qed

lemma Number_toFixed0:
  assumes "0 \<le> m" and "m + 1 / 2 < 2 ^ 53"
  shows "StringToNumber (toFixed0 (Fin s m)) = Fin (s \<and> m \<noteq> 0) (of_int \<lfloor>m + 1 / 2\<rfloor>)"
proof -
  define n where "n = \<lfloor>m + 1 / 2\<rfloor>"
  from assms(1) have n0: "0 \<le> n" by (simp add: n_def)
  from assms(2) have n1: "n < 2 ^ 53"
    by (simp add: n_def floor_less_iff)
  have "m < 2 ^ 53" using assms(2) by simp
  also have "(2 :: rat) ^ 53 < 10 ^ 21" by simp
  finally have small: "\<not> pow10 21 \<le> m" by (simp add: pow10_def)
  have minus: "ustr ''-'' = [0x2D]" by (simp add: ustr_def)
  show ?thesis
    using small StringToNumber_digitsOf [OF n0] fl_of_int [OF n0 n1]
    by (simp add: toFixed0.simps n_def [symmetric] minus)
qed

text \<open>
  C3. In the record of every weapon: when the stored \<^verbatim>\<open>adsStandSpreadInc\<close> is
  zero as a number, \<^verbatim>\<open>adsStandFirstSpreadMul\<close> holds that zero, a number and
  not NaN; otherwise it holds the number read back from \<^verbatim>\<open>toFixed(0)\<close> of the
  quotient of the first-shot value (row 1, column 1 of the table of increases)
  by the stored \<^verbatim>\<open>adsStandSpreadInc\<close>, which for a finite quotient of
  magnitude \<open>m\<close> below \<open>2\<^sup>5\<^sup>3\<close> is the integer \<open>\<lfloor>m + 1/2\<rfloor>\<close> with the sign of
  the quotient.
\<close>

theorem adsStandFirstSpreadMul_zero_guard:
  "(strictEqZero (ToNumber (readProp (extractWeapon weapon) (ustr ''adsStandSpreadInc''))) \<longrightarrow>
      readProp (extractWeapon weapon) (ustr ''adsStandFirstSpreadMul'') =
        JNumber (ToNumber (readProp (extractWeapon weapon) (ustr ''adsStandSpreadInc''))) \<and>
      (\<exists>s. readProp (extractWeapon weapon) (ustr ''adsStandFirstSpreadMul'') = JNumber (Fin s 0))) \<and>
   (\<not> strictEqZero (ToNumber (readProp (extractWeapon weapon) (ustr ''adsStandSpreadInc''))) \<longrightarrow>
      readProp (extractWeapon weapon) (ustr ''adsStandFirstSpreadMul'') =
        JNumber (StringToNumber (toFixed0
          (jsdiv (ToNumber (prune (cellText weapon (ustr ''spreadIncDecTable'') 1 1) noOpts))
                 (ToNumber (readProp (extractWeapon weapon) (ustr ''adsStandSpreadInc'')))))) \<and>
      (\<forall>s m.
         jsdiv (ToNumber (prune (cellText weapon (ustr ''spreadIncDecTable'') 1 1) noOpts))
               (ToNumber (readProp (extractWeapon weapon) (ustr ''adsStandSpreadInc''))) = Fin s m \<longrightarrow>
         0 \<le> m \<longrightarrow> m + 1 / 2 < 2 ^ 53 \<longrightarrow>
         readProp (extractWeapon weapon) (ustr ''adsStandFirstSpreadMul'') =
           JNumber (Fin (s \<and> m \<noteq> 0) (of_int \<lfloor>m + 1 / 2\<rfloor>))))"
proof -
  define sips where "sips = ToNumber (readProp (extractWeapon weapon) (ustr ''adsStandSpreadInc''))"
  define firstSips where
    "firstSips = ToNumber (prune (cellText weapon (ustr ''spreadIncDecTable'') 1 1) noOpts)"
  have s: "ToNumber (prune (cellText weapon (ustr ''spreadIncDecTable'') 2 1) noOpts) = sips"
    by (simp add: sips_def readProp_def field_adsStandSpreadInc)
  have stored: "readProp (extractWeapon weapon) (ustr ''adsStandFirstSpreadMul'') =
      JNumber (if strictEqZero sips then sips else StringToNumber (toFixed0 (jsdiv firstSips sips)))"
    by (simp add: readProp_def field_adsStandFirstSpreadMul s Let_def firstSips_def)
  have z: "strictEqZero sips \<Longrightarrow> \<exists>s. sips = Fin s 0"
    by (cases sips) simp_all
  have r: "jsdiv firstSips sips = Fin s m \<Longrightarrow> 0 \<le> m \<Longrightarrow> m + 1 / 2 < 2 ^ 53 \<Longrightarrow>
      StringToNumber (toFixed0 (jsdiv firstSips sips)) = Fin (s \<and> m \<noteq> 0) (of_int \<lfloor>m + 1 / 2\<rfloor>)"
    for s m
    by (simp add: Number_toFixed0)
  show ?thesis
    unfolding sips_def [symmetric] firstSips_def [symmetric] stored
    using z r by auto
qed

lemma incDec_cells:
  "cellText garand (ustr ''spreadIncDecTable'') 1 1 = Some (ustr ''7'')"
  "cellText garand (ustr ''spreadIncDecTable'') 1 2 = Some (ustr ''8'')"
  "cellText garand (ustr ''spreadIncDecTable'') 2 1 = Some (ustr ''2'')"
  "cellText garand (ustr ''spreadIncDecTable'') 2 2 = Some (ustr ''4'')"
  "cellText steadyWeapon (ustr ''spreadIncDecTable'') 1 1 = Some (ustr ''7'')"
  "cellText steadyWeapon (ustr ''spreadIncDecTable'') 2 1 = Some (ustr ''0'')"
  by (simp_all add: garand_def steadyWeapon_def dom_eval)

lemma prune_small:
  "prune (Some (ustr ''0'')) noOpts = JNumber (Fin False 0)"
  "prune (Some (ustr ''2'')) noOpts = JNumber (Fin False 2)"
  "prune (Some (ustr ''4'')) noOpts = JNumber (Fin False 4)"
  "prune (Some (ustr ''7'')) noOpts = JNumber (Fin False 7)"
  "prune (Some (ustr ''8'')) noOpts = JNumber (Fin False 8)"
  by (simp_all add: prune_eval str_eval num_eval)

lemma quotient_7_2:
  "StringToNumber (toFixed0 (jsdiv (Fin False 7) (Fin False 2))) = Fin False 4"
proof -
  have "jsdiv (Fin False 7) (Fin False 2) = Fin False (7 / 2)"
    by (simp add: num_eval)
  moreover have "toFixed0 (Fin False (7 / 2)) = ustr ''4''"
    by (simp add: tostr_eval num_eval)
  moreover have "StringToNumber (ustr ''4'') = Fin False 4"
    by (simp add: str_eval num_eval)
  ultimately show ?thesis by simp
qed

lemma quotient_8_2:
  "StringToNumber (toFixed0 (jsdiv (Fin False 8) (Fin False 2))) = Fin False 4"
proof -
  have "jsdiv (Fin False 8) (Fin False 2) = Fin False 4"
    by (simp add: num_eval)
  moreover have "toFixed0 (Fin False 4) = ustr ''4''"
    by (simp add: tostr_eval num_eval)
  moreover have "StringToNumber (ustr ''4'') = Fin False 4"
    by (simp add: str_eval num_eval)
  ultimately show ?thesis by simp
qed

lemma quotient_8_4:
  "toFixed0 (jsdiv (Fin False 8) (Fin False 4)) = ustr ''2''"
  "StringToNumber (ustr ''2'') = Fin False 2"
proof -
  have "jsdiv (Fin False 8) (Fin False 4) = Fin False 2"
    by (simp add: num_eval)
  moreover have "toFixed0 (Fin False 2) = ustr ''2''"
    by (simp add: tostr_eval num_eval)
  ultimately show "toFixed0 (jsdiv (Fin False 8) (Fin False 4)) = ustr ''2''" by simp
  show "StringToNumber (ustr ''2'') = Fin False 2"
    by (simp add: str_eval num_eval)
qed

lemmas quotient_eval = quotient_7_2 quotient_8_2 quotient_8_4

theorem adsStandFirstSpreadMul_zero_guard_witness:
  "readProp (extractWeapon steadyWeapon) (ustr ''adsStandSpreadInc'') = JNumber (Fin False 0) \<and>
   readProp (extractWeapon steadyWeapon) (ustr ''adsStandFirstSpreadMul'') = JNumber (Fin False 0) \<and>
   readProp (extractWeapon garand) (ustr ''adsStandSpreadInc'') = JNumber (Fin False 2) \<and>
   prune (cellText garand (ustr ''spreadIncDecTable'') 1 1) noOpts = JNumber (Fin False 7) \<and>
   jsdiv (Fin False 7) (Fin False 2) = Fin False (7 / 2) \<and>
   readProp (extractWeapon garand) (ustr ''adsStandFirstSpreadMul'') = JNumber (Fin False 4)"
proof -
  have a: "readProp (extractWeapon steadyWeapon) (ustr ''adsStandSpreadInc'') = JNumber (Fin False 0)"
    by (simp add: readProp_def field_adsStandSpreadInc incDec_cells prune_small)
  have b: "readProp (extractWeapon garand) (ustr ''adsStandSpreadInc'') = JNumber (Fin False 2)"
    by (simp add: readProp_def field_adsStandSpreadInc incDec_cells prune_small)
  have q: "jsdiv (Fin False 7) (Fin False 2) = Fin False (7 / 2)"
    by (simp add: num_eval)
  have f: "\<lfloor>(7 :: rat) / 2 + 1 / 2\<rfloor> = 4"
    by simp
  from adsStandFirstSpreadMul_zero_guard [of steadyWeapon]
  have c: "readProp (extractWeapon steadyWeapon) (ustr ''adsStandFirstSpreadMul'') = JNumber (Fin False 0)"
    by (simp add: a)
  have n: "\<not> strictEqZero (Fin False 2)"
    by simp
  note t = adsStandFirstSpreadMul_zero_guard
    [of garand, unfolded b incDec_cells prune_small ToNumber.simps]
  from t n have "\<forall>s m. jsdiv (Fin False 7) (Fin False 2) = Fin s m \<longrightarrow>
         0 \<le> m \<longrightarrow> m + 1 / 2 < 2 ^ 53 \<longrightarrow>
         readProp (extractWeapon garand) (ustr ''adsStandFirstSpreadMul'') =
           JNumber (Fin (s \<and> m \<noteq> 0) (of_int \<lfloor>m + 1 / 2\<rfloor>))"
    by blast
  from this [rule_format, OF q]
  have d: "readProp (extractWeapon garand) (ustr ''adsStandFirstSpreadMul'') = JNumber (Fin False 4)"
    by (simp add: f)
  show ?thesis
    using a b c d q by (simp add: incDec_cells prune_small)
qed

text \<open>
  C1. The claim is that \<^verbatim>\<open>hipStandFirstSpreadMul\<close> is the row-1/column-2 value
  divided by the weapon's \<^verbatim>\<open>hipStandSpreadInc\<close>. On the block \<open>garand\<close>
  (first-shot values 7 and 8, increases 2 and 4) the script stores 4, the
  quotient of 8 by \<^verbatim>\<open>adsStandSpreadInc\<close> = 2, while the quotient by
  \<^verbatim>\<open>hipStandSpreadInc\<close> = 4 is 2, which is what the rule of the earlier
  revision stores (as the text \<open>2\<close>).
\<close>

theorem hipStandFirstSpreadMul_divides_by_ads:
  "readProp (extractWeapon garand) (ustr ''adsStandSpreadInc'') = JNumber (Fin False 2) \<and>
   readProp (extractWeapon garand) (ustr ''hipStandSpreadInc'') = JNumber (Fin False 4) \<and>
   prune (cellText garand (ustr ''spreadIncDecTable'') 1 2) noOpts = JNumber (Fin False 8) \<and>
   readProp (extractWeapon garand) (ustr ''hipStandFirstSpreadMul'') = JNumber (Fin False 4) \<and>
   StringToNumber (toFixed0 (jsdiv (Fin False 8) (Fin False 4))) = Fin False 2 \<and>
   readProp (hipStandFirstSpreadMul_v1 (ustr ''hipStandFirstSpreadMul'') (ustr ''spreadIncDecTable'')
               garand (extractWeapon garand))
     (ustr ''hipStandFirstSpreadMul'') = JString (ustr ''2'')"
proof -
  have v1: "prune_v1 (Some (ustr ''8'')) None = JString (ustr ''8'')"
    by (simp add: prune_v1_def prune_eval ustr_def)
  have n8: "StringToNumber (ustr ''8'') = Fin False 8"
    by (simp add: str_eval num_eval)
  have "readProp (hipStandFirstSpreadMul_v1 (ustr ''hipStandFirstSpreadMul'') (ustr ''spreadIncDecTable'')
               garand (extractWeapon garand))
     (ustr ''hipStandFirstSpreadMul'') = JString (ustr ''2'')"
    by (simp add: hipStandFirstSpreadMul_v1_def getSpread_v1_def Let_def readProp_def
        getProp_setProp jsrem_def cellText_def [symmetric] incDec_cells v1 n8
        field_hipStandSpreadInc prune_small quotient_eval)
  then show ?thesis
    by (simp add: readProp_def field_adsStandSpreadInc field_hipStandSpreadInc
        field_hipStandFirstSpreadMul incDec_cells prune_small quotient_eval)
qed

section \<open>Properties of the iteration over the weapons\<close>

text \<open>
  The name under which a block is stored, and what \<^verbatim>\<open>symData\<close> holds under
  a name other than \<^verbatim>\<open>__proto__\<close> after one block and after the whole run:
  the record of the last block of that name.
\<close>

lemma weaponName_missing:
  "querySelector weapon (ByClass (ustr ''lblWeaponNameValue'')) = None \<Longrightarrow>
   weaponName weapon = JUndefined"
  by (simp add: weaponName_def getValue_def prune_def)

lemma weaponName_present:
  "querySelector weapon (ByClass (ustr ''lblWeaponNameValue'')) = Some e \<Longrightarrow>
   weaponName weapon = JString (filter (\<lambda>c. c \<noteq> DEGREE) (textContent e))"
  by (simp add: weaponName_def getValue_def prune_def replaceAll_degree_def)

lemma processWeapon_inserts:
  "ToString (weaponName weapon) \<noteq> ustr ''__proto__'' \<Longrightarrow>
   getProp (processWeapon weapon symData) (ToString (weaponName weapon)) =
     Some (extractWeapon weapon)"
  by (simp add: processWeapon_def getProp_setProp)

lemma find_append_cases:
  "find P (xs @ ys) = (case find P xs of None \<Rightarrow> find P ys | Some x \<Rightarrow> Some x)"
  by (induction xs) simp_all

lemma fold_processWeapon_read:
  "k \<noteq> ustr ''__proto__'' \<Longrightarrow>
   getProp (fold processWeapon ws symData) k =
     (case find (\<lambda>w. ToString (weaponName w) = k) (rev ws) of
        Some w \<Rightarrow> Some (extractWeapon w)
      | None \<Rightarrow> getProp symData k)"
proof (induction ws arbitrary: symData)
  case Nil
  show ?case by simp
next
  case (Cons w ws)
  have step: "getProp (processWeapon w symData) k =
      (if ToString (weaponName w) = k then Some (extractWeapon w) else getProp symData k)"
    using Cons.prems by (auto simp add: processWeapon_def getProp_setProp)
  have "getProp (fold processWeapon (w # ws) symData) k =
      (case find (\<lambda>w. ToString (weaponName w) = k) (rev ws) of
        Some w \<Rightarrow> Some (extractWeapon w)
      | None \<Rightarrow> getProp (processWeapon w symData) k)"
    using Cons.IH [OF Cons.prems, of "processWeapon w symData"] by simp
  then show ?case
    by (simp add: step find_append_cases split: option.splits)
qed

lemma find_SomeD: "find P xs = Some x \<Longrightarrow> P x \<and> x \<in> set xs"
  by (induction xs) (auto split: if_splits)

lemma buildSymData_inserts:
  assumes "weapon \<in> set (weaponsOf document)"
    and "ToString (weaponName weapon) \<noteq> ustr ''__proto__''"
  shows "\<exists>w \<in> set (weaponsOf document).
           ToString (weaponName w) = ToString (weaponName weapon) \<and>
           getProp (buildSymData document) (ToString (weaponName weapon)) = Some (extractWeapon w)"
proof -
  let ?k = "ToString (weaponName weapon)"
  let ?P = "\<lambda>w. ToString (weaponName w) = ?k"
  from assms(1) have "find ?P (rev (weaponsOf document)) \<noteq> None"
    by (auto simp: find_None_iff)
  then obtain w where f: "find ?P (rev (weaponsOf document)) = Some w"
    by blast
  from find_SomeD [OF f] have "ToString (weaponName w) = ?k" and "w \<in> set (weaponsOf document)"
    by simp_all
  moreover have "getProp (buildSymData document) ?k = Some (extractWeapon w)"
    using assms(2) by (simp add: buildSymData_def fold_processWeapon_read f)
  ultimately show ?thesis by blast
qed

lemma weaponsOf_examples:
  "weaponsOf (documentOf [protoWeapon, bareWeapon]) = [protoWeapon, bareWeapon]"
  "weaponsOf (documentOf [namelessWeapon]) = [namelessWeapon]"
  by (simp_all add: weaponsOf_def documentOf_def children_def querySelectorAll_Element
      querySelectorAll_leaf protoWeapon_def bareWeapon_def namelessWeapon_def labelled_def)

lemma weaponName_examples:
  "weaponName protoWeapon = JString (ustr ''__proto__'')"
  "weaponName bareWeapon = JString (ustr ''Bare'')"
  "weaponName namelessWeapon = JUndefined"
  by (simp_all add: weaponName_def protoWeapon_def bareWeapon_def namelessWeapon_def
      dom_eval prune_eval ustr_def)

text \<open>
  C8. The claim is that every processed weapon block has its record inserted
  into \<^verbatim>\<open>symData\<close> under the name extracted from the block. For a document
  with the two blocks named \<open>__proto__\<close> and \<open>Bare\<close>, the assignment
  \<^verbatim>\<open>symData["__proto__"] = weaponData\<close> creates no own property: the mapping
  built has the one key \<open>Bare\<close> and no entry for the first block.
\<close>

theorem proto_weapon_not_inserted:
  "weaponsOf (documentOf [protoWeapon, bareWeapon]) = [protoWeapon, bareWeapon] \<and>
   weaponName protoWeapon = JString (ustr ''__proto__'') \<and>
   map fst (buildSymData (documentOf [protoWeapon, bareWeapon])) = [ustr ''Bare''] \<and>
   Object_keys (buildSymData (documentOf [protoWeapon, bareWeapon])) = [ustr ''Bare''] \<and>
   getProp (buildSymData (documentOf [protoWeapon, bareWeapon])) (ustr ''__proto__'') = None"
proof -
  have b: "buildSymData (documentOf [protoWeapon, bareWeapon]) =
      [(ustr ''Bare'', extractWeapon bareWeapon)]"
    by (simp add: buildSymData_def weaponsOf_examples processWeapon_def weaponName_examples
        setProp_def)
  have k: "Object_keys [(ustr ''Bare'', extractWeapon bareWeapon)] = [ustr ''Bare'']"
    by (simp add: keys_eval)
  show ?thesis
    by (simp add: b k weaponsOf_examples weaponName_examples getProp_def)
qed

lemma nameless_weapon_inserted:
  "buildSymData (documentOf [namelessWeapon]) = [(ustr ''undefined'', extractWeapon namelessWeapon)]"
  by (simp add: buildSymData_def weaponsOf_examples processWeapon_def weaponName_examples
      setProp_def)

end
